theory Spec2Isabelle
  imports Main "HOL-Library.Log_Nat"
begin

section \<open>JavaScript numbers\<close>

text \<open>
  The numeric fields of the component are JavaScript numbers: IEEE-754 binary64 values.
  A finite double is a rational number, so a number is modelled by its exact value, or
  as one of the three non-finite values. The two zeros are one value here: the code
  compares numbers with \<^verbatim>\<open>!==\<close> and \<^verbatim>\<open><\<close> only, which do not distinguish them.
  Every double is a \<open>number\<close>; a statement for all \<open>number\<close>s covers all doubles.
\<close>

datatype number = Finite rat | NaN | PosInfinity | NegInfinity

text \<open>Truncation towards zero, the quotient that \<^verbatim>\<open>%\<close> uses.\<close>

definition trunc :: "rat \<Rightarrow> int" where
  "trunc x = (if 0 \<le> x then \<lfloor>x\<rfloor> else \<lceil>x\<rceil>)"

text \<open>
  The remainder operator \<^verbatim>\<open>a % b\<close>: the result has the sign of the dividend and is exact
  (no rounding takes place); it is NaN when the dividend is not finite or the divisor is
  zero or NaN, and the dividend itself when the divisor is infinite.
\<close>

fun js_mod :: "number \<Rightarrow> number \<Rightarrow> number" where
  "js_mod (Finite a) (Finite b) =
     (if b = 0 then NaN else Finite (a - b * of_int (trunc (a / b))))"
| "js_mod (Finite a) PosInfinity = Finite a"
| "js_mod (Finite a) NegInfinity = Finite a"
| "js_mod _ _ = NaN"

text \<open>
  Rounding of an exact result to the nearest double, ties to the even significand:
  \<open>floor_log2 a\<close> is the binary exponent of a positive \<open>a\<close>, the quantum is
  \<open>2 powi (e - 52)\<close>, not below the subnormal quantum \<open>2 powi (- 1074)\<close>, and a
  result that reaches \<open>2 powi 1024\<close> overflows to an infinity.
\<close>

definition floor_log2 :: "rat \<Rightarrow> int" where
  "floor_log2 a =
     (let (p, d) = quotient_of a; k = bitlen p - bitlen d
      in if 2 powi k \<le> a then k else k - 1)"

definition round_half_even :: "rat \<Rightarrow> int" where
  "round_half_even x =
     (let f = \<lfloor>x\<rfloor>; r = x - of_int f
      in if r < 1 / 2 then f else if 1 / 2 < r then f + 1
         else if even f then f else f + 1)"

definition round_double :: "rat \<Rightarrow> number" where
  "round_double x =
     (if x = 0 then Finite 0
      else let a = \<bar>x\<bar>;
               q = max (floor_log2 a - 52) (- 1074);
               r = of_int (round_half_even (a / 2 powi q)) * 2 powi q
           in if 2 powi 1024 \<le> r then (if 0 < x then PosInfinity else NegInfinity)
              else Finite (sgn x * r))"

text \<open>The subtraction \<^verbatim>\<open>a - b\<close>: the exact difference, rounded.\<close>

fun js_sub :: "number \<Rightarrow> number \<Rightarrow> number" where
  "js_sub (Finite a) (Finite b) = round_double (a - b)"
| "js_sub NaN _ = NaN"
| "js_sub _ NaN = NaN"
| "js_sub PosInfinity PosInfinity = NaN"
| "js_sub NegInfinity NegInfinity = NaN"
| "js_sub PosInfinity _ = PosInfinity"
| "js_sub NegInfinity _ = NegInfinity"
| "js_sub (Finite a) PosInfinity = NegInfinity"
| "js_sub (Finite a) NegInfinity = PosInfinity"

text \<open>Strict inequality \<^verbatim>\<open>a !== b\<close> of two numbers: NaN differs from everything.\<close>

definition js_strict_neq :: "number \<Rightarrow> number \<Rightarrow> bool" where
  "js_strict_neq a b = (a = NaN \<or> b = NaN \<or> a \<noteq> b)"

text \<open>The comparison \<^verbatim>\<open>a < b\<close>: false whenever an operand is NaN.\<close>

fun js_lt :: "number \<Rightarrow> number \<Rightarrow> bool" where
  "js_lt (Finite a) (Finite b) = (a < b)"
| "js_lt (Finite a) PosInfinity = True"
| "js_lt NegInfinity (Finite b) = True"
| "js_lt NegInfinity PosInfinity = True"
| "js_lt _ _ = False"

section \<open>Values of the platform\<close>

text \<open>
  A JSON value as \<^verbatim>\<open>JSON.parse\<close> and \<^verbatim>\<open>response.json()\<close> produce it, and as the payload
  object is built. An object keeps its keys in insertion order.
\<close>

datatype json =
    JNull
  | JBool bool
  | JNumber number
  | JString string
  | JArray "json list"
  | JObject "(string \<times> json) list"

text \<open>
  What a \<^verbatim>\<open>catch\<close> receives: an \<^verbatim>\<open>Error\<close> instance with its message, or a value that
  is not an \<^verbatim>\<open>Error\<close> (the event that \<^verbatim>\<open>reader.onerror\<close> passes to \<^verbatim>\<open>reject\<close>).
\<close>

datatype thrown = Error string | NotAnError

text \<open>How an awaited promise ends; \<open>Pending\<close> is a promise that never settles.\<close>

datatype 'a promise = Fulfilled 'a | Rejected thrown | Pending

text \<open>A file chosen in the form: the code hands it to the reader and reads nothing of it.\<close>

datatype File = File string

datatype input_method = Url | FileUpload

text \<open>The \<^verbatim>\<open>Response\<close> of \<^verbatim>\<open>fetch\<close>, by the three members the code reads.\<close>

record response =
  response_ok :: bool
  response_text :: "string promise"
  response_json :: "json promise"

text \<open>
  The arguments of one call of \<^verbatim>\<open>fetch\<close>. The body sent is a JSON text; the record
  keeps it as the JSON value that the text denotes.
\<close>

record request =
  url :: string
  http_method :: string
  body :: json
  headers :: "(string \<times> string) list"

text \<open>
  The platform the component runs on: the build-time variable
  \<^verbatim>\<open>import.meta.env.VITE_BACKEND_URL\<close> (\<open>None\<close> when undefined), the outcome of reading a
  file with \<^verbatim>\<open>FileReader.readAsDataURL\<close>, the network, \<^verbatim>\<open>JSON.parse\<close> (\<open>None\<close> when it
  throws a \<^verbatim>\<open>SyntaxError\<close>), the conversion of a number to a string, and the message of
  the \<^verbatim>\<open>TypeError\<close> that the engine throws for an object it cannot convert to a string.
  Calls of \<^verbatim>\<open>console\<close> are left out.
\<close>

record platform =
  VITE_BACKEND_URL :: "string option"
  readAsDataURL :: "File \<Rightarrow> string promise"
  fetch :: "request \<Rightarrow> response promise"
  JSON_parse :: "string \<Rightarrow> json option"
  Number_toString :: "number \<Rightarrow> string"
  TypeError_message :: string

section \<open>The component state\<close>

text \<open>
  The script's variables (lines 2 to 14), with the types the script declares; \<open>None\<close> is
  \<^verbatim>\<open>null\<close> (or \<^verbatim>\<open>undefined\<close>, for the seed).
\<close>

record component =
  prompt :: string
  imageUrl :: string
  imageFile :: "File option"
  seed :: "number option"
  inferenceSteps :: number
  guidanceScale :: number
  width :: number
  height :: number
  numFrames :: number
  loading :: bool
  result :: json
  error :: "string option"
  inputMethod :: input_method

definition initial :: component where
  "initial = \<lparr> prompt = '''', imageUrl = '''', imageFile = None, seed = None,
     inferenceSteps = Finite 50, guidanceScale = Finite (15 / 2), width = Finite 704,
     height = Finite 480, numFrames = Finite 161, loading = False, result = JNull,
     error = None, inputMethod = Url \<rparr>"

section \<open>validateDimensions\<close>

text \<open>The four checks in the order of the source; \<open>Inl\<close> is the thrown error.\<close>

definition validateDimensions :: "component \<Rightarrow> thrown + unit" where
  "validateDimensions c =
     (if js_strict_neq (js_mod (width c) (Finite 32)) (Finite 0)
         \<or> js_strict_neq (js_mod (height c) (Finite 32)) (Finite 0)
      then Inl (Error ''Width and height must be divisible by 32'')
      else if js_strict_neq (js_mod (js_sub (numFrames c) (Finite 1)) (Finite 8)) (Finite 0)
      then Inl (Error ''Number of frames must be divisible by 8 plus 1'')
      else if js_lt (inferenceSteps c) (Finite 1)
      then Inl (Error ''Inference steps must be positive'')
      else if js_lt (guidanceScale c) (Finite 0)
      then Inl (Error ''Guidance scale must be non-negative'')
      else Inr ())"

section \<open>handleSubmit\<close>

text \<open>
  How a block of the asynchronous function ends: normally with a value, by a throw, or
  suspended at an \<^verbatim>\<open>await\<close> whose promise never settles.
\<close>

datatype 'a completion = Normal 'a | Throw thrown | Suspended

definition await :: "'a promise \<Rightarrow> 'a completion" where
  "await p = (case p of Fulfilled v \<Rightarrow> Normal v | Rejected e \<Rightarrow> Throw e | Pending \<Rightarrow> Suspended)"

text \<open>The object literal of lines 46 to 53.\<close>

definition payload_literal :: "component \<Rightarrow> (string \<times> json) list" where
  "payload_literal c =
     [(''prompt'', JString (prompt c)),
      (''inference_steps'', JNumber (inferenceSteps c)),
      (''guidance_scale'', JNumber (guidanceScale c)),
      (''width'', JNumber (width c)),
      (''height'', JNumber (height c)),
      (''num_frames'', JNumber (numFrames c))]"

text \<open>
  An assignment \<^verbatim>\<open>payload.k = v\<close>: the value of an existing key is replaced, a new key
  is added after the others.
\<close>

fun set_property :: "string \<Rightarrow> json \<Rightarrow> (string \<times> json) list \<Rightarrow> (string \<times> json) list" where
  "set_property k v [] = [(k, v)]"
| "set_property k v ((k', v') # kvs) =
     (if k' = k then (k, v) # kvs else (k', v') # set_property k v kvs)"

text \<open>
  Lines 55 to 67: the image source. In the file branch the function awaits the promise
  of the file reader once; the second component counts the awaits passed.
\<close>

definition add_image ::
  "platform \<Rightarrow> component \<Rightarrow> (string \<times> json) list \<Rightarrow> (string \<times> json) list completion \<times> nat" where
  "add_image env c payload =
     (if inputMethod c = Url
      then (Normal (set_property ''image_url'' (JString (imageUrl c)) payload), 0)
      else (case imageFile c of
              Some f \<Rightarrow>
                (case await (readAsDataURL env f) of
                   Normal base64Data \<Rightarrow>
                     (Normal (set_property ''image_base64'' (JString base64Data) payload), 1)
                 | Throw e \<Rightarrow> (Throw e, 1)
                 | Suspended \<Rightarrow> (Suspended, 1))
            | None \<Rightarrow> (Normal payload, 0)))"

text \<open>Lines 70 to 73: the optional seed.\<close>

definition add_seed :: "component \<Rightarrow> (string \<times> json) list \<Rightarrow> (string \<times> json) list" where
  "add_seed c payload =
     (case seed c of Some s \<Rightarrow> set_property ''seed'' (JNumber s) payload | None \<Rightarrow> payload)"

text \<open>Truthiness of a value, as \<^verbatim>\<open>||\<close> and \<^verbatim>\<open>{#if}\<close> test it.\<close>

fun truthy :: "json \<Rightarrow> bool" where
  "truthy JNull = False"
| "truthy (JBool b) = b"
| "truthy (JNumber n) = (n \<noteq> NaN \<and> n \<noteq> Finite 0)"
| "truthy (JString s) = (s \<noteq> [])"
| "truthy (JArray xs) = True"
| "truthy (JObject kvs) = True"

text \<open>
  The conversion of a value to a string, which \<^verbatim>\<open>new Error(v)\<close> applies to its argument.
  A string is itself; a number is converted by the platform; an array joins its elements
  with commas, \<^verbatim>\<open>null\<close> elements being empty; an object is \<^verbatim>\<open>[object Object]\<close>, unless it
  has a key \<^verbatim>\<open>toString\<close> of its own: the value of that key is no function, and the
  conversion throws a \<^verbatim>\<open>TypeError\<close> (\<open>None\<close>).
\<close>

fun all_some :: "'a option list \<Rightarrow> 'a list option" where
  "all_some [] = Some []"
| "all_some (None # xs) = None"
| "all_some (Some x # xs) = map_option ((#) x) (all_some xs)"

fun join_comma :: "string list \<Rightarrow> string" where
  "join_comma [] = []"
| "join_comma [x] = x"
| "join_comma (x # y # ys) = x @ '','' @ join_comma (y # ys)"

fun js_ToString :: "(number \<Rightarrow> string) \<Rightarrow> json \<Rightarrow> string option" where
  "js_ToString nts JNull = Some ''null''"
| "js_ToString nts (JBool b) = Some (if b then ''true'' else ''false'')"
| "js_ToString nts (JNumber n) = Some (nts n)"
| "js_ToString nts (JString s) = Some s"
| "js_ToString nts (JArray xs) =
     map_option join_comma
       (all_some (map (\<lambda>x. if x = JNull then Some [] else js_ToString nts x) xs))"
| "js_ToString nts (JObject kvs) =
     (if ''toString'' \<in> fst ` set kvs then None else Some ''[object Object]'')"

text \<open>
  Line 97, \<^verbatim>\<open>new Error(errorMessage)\<close>: the error thrown has the message converted to a
  string; when the conversion throws, its \<^verbatim>\<open>TypeError\<close> is what leaves the block.
\<close>

definition new_Error :: "platform \<Rightarrow> json \<Rightarrow> thrown" where
  "new_Error env v =
     (case js_ToString (Number_toString env) v of
        Some m \<Rightarrow> Error m
      | None \<Rightarrow> Error (TypeError_message env))"

text \<open>
  The property access \<^verbatim>\<open>errorJson.detail\<close>: a \<^verbatim>\<open>TypeError\<close> on \<^verbatim>\<open>null\<close>, the value of
  the key on an object that has it, \<^verbatim>\<open>undefined\<close> (\<open>None\<close>) otherwise: no prototype of
  the platform has a property of this name.
\<close>

fun detail_of :: "json \<Rightarrow> thrown + json option" where
  "detail_of JNull = Inl (Error ''Cannot read properties of null'')"
| "detail_of (JObject kvs) = Inr (map_of kvs ''detail'')"
| "detail_of _ = Inr None"

text \<open>
  Lines 90 to 96: the message for a response that is not ok. The inner \<^verbatim>\<open>catch\<close>
  receives the \<^verbatim>\<open>SyntaxError\<close> of \<^verbatim>\<open>JSON.parse\<close> and the \<^verbatim>\<open>TypeError\<close> of the property
  access alike.
\<close>

definition errorMessage :: "platform \<Rightarrow> string \<Rightarrow> json" where
  "errorMessage env errorText =
     (case JSON_parse env errorText of
        None \<Rightarrow> JString errorText
      | Some errorJson \<Rightarrow>
          (case detail_of errorJson of
             Inl e \<Rightarrow> JString errorText
           | Inr None \<Rightarrow> JString ''Failed to generate video''
           | Inr (Some d) \<Rightarrow> if truthy d then d else JString ''Failed to generate video''))"

text \<open>
  The \<^verbatim>\<open>try\<close> block (lines 36 to 100): how it completes, the calls of \<^verbatim>\<open>fetch\<close> made,
  and the number of awaits reached. The block assigns no variable of the component
  before it completes: its value is what \<^verbatim>\<open>result\<close> receives.
\<close>

record attempt =
  completion :: "json completion"
  requests :: "request list"
  awaits :: nat

definition config_error :: thrown where
  "config_error =
     Error ''Backend URL is not configured. Please check your environment variables.''"

text \<open>
  Lines 87 to 100: the response. One await in either branch: of the text of a response
  that is not ok, whose message is thrown as a new \<^verbatim>\<open>Error\<close>, or of the JSON value of
  a response that is ok, which is the value of the block.
\<close>

definition receive :: "platform \<Rightarrow> response \<Rightarrow> json completion" where
  "receive env resp =
     (if \<not> response_ok resp
      then (case await (response_text resp) of
              Normal errorText \<Rightarrow>
                Throw (new_Error env (errorMessage env errorText))
            | Throw e \<Rightarrow> Throw e
            | Suspended \<Rightarrow> Suspended)
      else await (response_json resp))"

text \<open>
  Line 80, \<^verbatim>\<open>JSON.stringify(payload)\<close>, by the value that the text written denotes: a
  number that is not finite is written as \<^verbatim>\<open>null\<close>, inside arrays and objects too; every
  other value is written as itself, the keys of an object in their order.
\<close>

fun JSON_stringify :: "json \<Rightarrow> json" where
  "JSON_stringify (JNumber n) = (case n of Finite r \<Rightarrow> JNumber (Finite r) | _ \<Rightarrow> JNull)"
| "JSON_stringify (JArray xs) = JArray (map JSON_stringify xs)"
| "JSON_stringify (JObject kvs) = JObject (map (\<lambda>(k, v). (k, JSON_stringify v)) kvs)"
| "JSON_stringify v = v"

text \<open>Lines 75 to 85: the arguments of the call of \<^verbatim>\<open>fetch\<close>.\<close>

definition fetch_arguments :: "string \<Rightarrow> (string \<times> json) list \<Rightarrow> request" where
  "fetch_arguments backendUrl payload =
     \<lparr> url = backendUrl @ ''/generate-video'',
       http_method = ''POST'',
       body = JSON_stringify (JObject payload),
       headers = [(''Accept'', ''application/json''),
                  (''Content-Type'', ''application/json'')] \<rparr>"

text \<open>The one call of \<^verbatim>\<open>fetch\<close>, after \<open>n\<close> awaits, and what follows it.\<close>

definition send :: "platform \<Rightarrow> string \<Rightarrow> (string \<times> json) list \<Rightarrow> nat \<Rightarrow> attempt" where
  "send env backendUrl payload n =
     (let req = fetch_arguments backendUrl payload
      in case await (fetch env req) of
           Normal resp \<Rightarrow>
             \<lparr> completion = receive env resp, requests = [req], awaits = n + 2 \<rparr>
         | Throw e \<Rightarrow> \<lparr> completion = Throw e, requests = [req], awaits = n + 1 \<rparr>
         | Suspended \<Rightarrow> \<lparr> completion = Suspended, requests = [req], awaits = n + 1 \<rparr>)"

definition try_block :: "platform \<Rightarrow> component \<Rightarrow> attempt" where
  "try_block env c =
     (case validateDimensions c of
        Inl e \<Rightarrow> \<lparr> completion = Throw e, requests = [], awaits = 0 \<rparr>
      | Inr _ \<Rightarrow>
          (case VITE_BACKEND_URL env of
             None \<Rightarrow> \<lparr> completion = Throw config_error, requests = [], awaits = 0 \<rparr>
           | Some backendUrl \<Rightarrow>
               if backendUrl = []
               then \<lparr> completion = Throw config_error, requests = [], awaits = 0 \<rparr>
               else
                 (case add_image env c (payload_literal c) of
                    (Normal payload, n) \<Rightarrow> send env backendUrl (add_seed c payload) n
                  | (Throw e, n) \<Rightarrow> \<lparr> completion = Throw e, requests = [], awaits = n \<rparr>
                  | (Suspended, n) \<Rightarrow>
                      \<lparr> completion = Suspended, requests = [], awaits = n \<rparr>)))"

text \<open>
  One submission, run alone: \<open>after\<close> is the component when the submission has settled,
  or as it stays when the submission is suspended for ever; \<open>suspensions\<close> are the
  states of the component at the awaits the submission reached, in order.
\<close>

record run =
  after :: component
  settled :: bool
  fetches :: "request list"
  suspensions :: "component list"

text \<open>The \<^verbatim>\<open>catch\<close> clause (line 102).\<close>

definition caught_message :: "thrown \<Rightarrow> string" where
  "caught_message e = (case e of Error m \<Rightarrow> m | NotAnError \<Rightarrow> ''An unknown error occurred'')"

definition handleSubmit :: "platform \<Rightarrow> component \<Rightarrow> run" where
  "handleSubmit env c0 =
     (let c = c0\<lparr>loading := True, error := None\<rparr>;
          a = try_block env c
      in case completion a of
           Normal j \<Rightarrow>
             \<lparr> after = c\<lparr>result := j, loading := False\<rparr>, settled = True,
               fetches = requests a, suspensions = replicate (awaits a) c \<rparr>
         | Throw e \<Rightarrow>
             \<lparr> after = c\<lparr>error := Some (caught_message e), loading := False\<rparr>, settled = True,
               fetches = requests a, suspensions = replicate (awaits a) c \<rparr>
         | Suspended \<Rightarrow>
             \<lparr> after = c, settled = False,
               fetches = requests a, suspensions = replicate (awaits a) c \<rparr>)"

text \<open>What the template shows (lines 259 to 270): a block for each truthy variable.\<close>

definition displayed_error :: "component \<Rightarrow> string option" where
  "displayed_error c = (case error c of Some m \<Rightarrow> if m \<noteq> [] then Some m else None | None \<Rightarrow> None)"

definition displayed_result :: "component \<Rightarrow> json option" where
  "displayed_result c = (if truthy (result c) then Some (result c) else None)"

section \<open>A platform for the examples\<close>

text \<open>
  The closed examples run on a platform whose parts are fixed: the base URL, the outcome
  of reading any file, and the outcome of any call of \<^verbatim>\<open>fetch\<close>. \<^verbatim>\<open>JSON.parse\<close> is given
  by its values at the texts the examples use: two objects, and a text that is not JSON
  (it is consulted at no other text). No example converts a number to a string.
\<close>

definition detail_oom :: string where
  \<open>detail_oom = ''{"detail":"oom"}''\<close>

definition example_JSON_parse :: "string \<Rightarrow> json option" where
  "example_JSON_parse t =
     (if t = detail_oom then Some (JObject [(''detail'', JString ''oom'')])
      else if t = ''{}'' then Some (JObject [])
      else None)"

text \<open>
  A response with status 200 and the body \<^verbatim>\<open>{}\<close>, and a response with status 500 and a
  given body (\<^verbatim>\<open>response.ok\<close> is true for the statuses 200 to 299 only).
\<close>

definition response_200 :: response where
  "response_200 =
     \<lparr> response_ok = True, response_text = Fulfilled ''{}'',
       response_json = Fulfilled (JObject []) \<rparr>"

definition response_500 :: "string \<Rightarrow> response" where
  "response_500 t =
     \<lparr> response_ok = False, response_text = Fulfilled t,
       response_json = (case example_JSON_parse t of
                          Some j \<Rightarrow> Fulfilled j
                        | None \<Rightarrow> Rejected (Error ''Unexpected token'')) \<rparr>"

definition example_platform ::
  "string option \<Rightarrow> string promise \<Rightarrow> response promise \<Rightarrow> platform" where
  "example_platform backendUrl reading outcome =
     \<lparr> VITE_BACKEND_URL = backendUrl,
       readAsDataURL = (\<lambda>f. reading),
       fetch = (\<lambda>req. outcome),
       JSON_parse = example_JSON_parse,
       Number_toString = (\<lambda>n. []),
       TypeError_message = ''Cannot convert object to primitive value'' \<rparr>"

section \<open>Notions of the specification\<close>

text \<open>
  "Divisible by \<open>k\<close>", as the specification uses it of a number: the number is finite
  and an integer multiple of \<open>k\<close>.
\<close>

definition divisible_by :: "rat \<Rightarrow> number \<Rightarrow> bool" where
  "divisible_by k x = (case x of Finite r \<Rightarrow> r / k \<in> \<int> | _ \<Rightarrow> False)"

text \<open>
  A number as it stands in a JSON text: itself when it is finite, \<^verbatim>\<open>null\<close> otherwise.
\<close>

definition json_number :: "number \<Rightarrow> json" where
  "json_number n =
     (case n of Finite r \<Rightarrow> JNumber (Finite r) | NaN \<Rightarrow> JNull
      | PosInfinity \<Rightarrow> JNull | NegInfinity \<Rightarrow> JNull)"

section \<open>The arithmetic of the checks\<close>

text \<open>
  An integer of magnitude below \<open>2 ^ 53\<close> is a double, so rounding leaves it as it is:
  the subtraction in the third check is exact on such numbers of frames.
\<close>

lemma floor_log2_of_int:
  assumes "0 < n"
  shows "floor_log2 (of_int n) = bitlen n - 1"
proof -
  have b: "2 ^ nat (bitlen n - 1) \<le> n" using bitlen_bounds[OF assms] by simp
  have p: "0 \<le> bitlen n - 1" using assms bitlen_nonneg[of n] bitlen_eq_zero_iff[of n] by linarith
  have "(2::rat) powi (bitlen n - 1) = 2 ^ nat (bitlen n - 1)"
    using p by (simp add: power_int_def)
  also have "\<dots> = of_int (2 ^ nat (bitlen n - 1))" by simp
  also have "\<dots> \<le> of_int n" using b by (simp only: of_int_le_iff)
  finally have "(2::rat) powi (bitlen n - 1) \<le> of_int n" .
  then show ?thesis
    by (simp add: floor_log2_def bitlen_alt_def)
qed

lemma round_half_even_of_int: "round_half_even (of_int m) = m"
  by (simp add: round_half_even_def)

lemma round_double_nat_exact:
  assumes "0 < n" "n < 2 ^ 53"
  shows "round_double (of_int n) = Finite (of_int n)"
proof -
  have bl: "bitlen n \<le> 53"
    using assms by (simp add: bitlen_le_iff_power)
  have b1: "1 \<le> bitlen n" using assms bitlen_nonneg[of n] bitlen_eq_zero_iff[of n] by linarith
  define k where "k = nat (53 - bitlen n)"
  have q: "max (floor_log2 (of_int n) - 52) (- 1074) = - int k"
    using bl b1 assms by (simp add: floor_log2_of_int k_def)
  have pw: "(2::rat) powi (- int k) = 1 / 2 ^ k"
    by (simp add: power_int_def field_simps)
  have scaled: "rat_of_int n / (1 / 2 ^ k) = of_int (n * 2 ^ k)" by simp
  have unscale: "rat_of_int (n * 2 ^ k) * (1 / 2 ^ k) = of_int n" by simp
  have small: "rat_of_int n < 2 powi 1024"
  proof -
    have "rat_of_int n < of_int (2 ^ 53)" using assms by (simp only: of_int_less_iff)
    also have "\<dots> \<le> 2 powi 1024" by simp
    finally show ?thesis .
  qed
  have nz: "rat_of_int n \<noteq> 0" using assms by simp
  have ab: "\<bar>rat_of_int n\<bar> = of_int n" using assms by simp
  have sg: "sgn (rat_of_int n) = 1" using assms by simp
  show ?thesis
    unfolding round_double_def Let_def ab q pw scaled round_half_even_of_int unscale sg
    using nz small by simp
qed

lemma round_double_neg_exact:
  assumes "0 < n" "n < 2 ^ 53"
  shows "round_double (- of_int n) = Finite (- of_int n)"
proof -
  have bl: "bitlen n \<le> 53"
    using assms by (simp add: bitlen_le_iff_power)
  have b1: "1 \<le> bitlen n" using assms bitlen_nonneg[of n] bitlen_eq_zero_iff[of n] by linarith
  define k where "k = nat (53 - bitlen n)"
  have q: "max (floor_log2 (of_int n) - 52) (- 1074) = - int k"
    using bl b1 assms by (simp add: floor_log2_of_int k_def)
  have pw: "(2::rat) powi (- int k) = 1 / 2 ^ k"
    by (simp add: power_int_def field_simps)
  have scaled: "rat_of_int n / (1 / 2 ^ k) = of_int (n * 2 ^ k)" by simp
  have unscale: "rat_of_int (n * 2 ^ k) * (1 / 2 ^ k) = of_int n" by simp
  have small: "rat_of_int n < 2 powi 1024"
  proof -
    have "rat_of_int n < of_int (2 ^ 53)" using assms by (simp only: of_int_less_iff)
    also have "\<dots> \<le> 2 powi 1024" by simp
    finally show ?thesis .
  qed
  have nz: "- rat_of_int n \<noteq> 0" using assms by simp
  have ab: "\<bar>- rat_of_int n\<bar> = of_int n" using assms by simp
  have sg: "sgn (- rat_of_int n) = - 1" using assms by simp
  show ?thesis
    unfolding round_double_def Let_def ab q pw scaled round_half_even_of_int unscale sg
    using nz small by simp
qed

lemma round_double_int_exact:
  assumes "\<bar>m\<bar> < 2 ^ 53"
  shows "round_double (of_int m) = Finite (of_int m)"
proof -
  consider "m = 0" | "0 < m" | "m < 0" by linarith
  then show ?thesis
  proof cases
    case 1
    then show ?thesis by (simp add: round_double_def)
  next
    case 2
    then show ?thesis using assms round_double_nat_exact[of m] by simp
  next
    case 3
    then have "0 < - m" "- m < 2 ^ 53" using assms by simp_all
    from round_double_neg_exact[OF this] show ?thesis by simp
  qed
qed

lemma trunc_eq_iff: "of_int (trunc x) = x \<longleftrightarrow> x \<in> \<int>"
proof
  assume "of_int (trunc x) = x"
  then have "x = of_int (trunc x)" by simp
  then show "x \<in> \<int>" by (metis Ints_of_int)
next
  assume "x \<in> \<int>"
  then obtain m :: int where "x = of_int m" by (auto elim: Ints_cases)
  then show "of_int (trunc x) = x" by (simp add: trunc_def)
qed

lemma remainder_check:
  assumes "k \<noteq> 0"
  shows "js_strict_neq (js_mod x (Finite k)) (Finite 0) \<longleftrightarrow> \<not> divisible_by k x"
proof (cases x)
  case (Finite r)
  have "r - k * of_int (trunc (r / k)) = 0 \<longleftrightarrow> of_int (trunc (r / k)) = r / k"
    using assms by (auto simp: field_simps)
  also have "\<dots> \<longleftrightarrow> r / k \<in> \<int>" by (rule trunc_eq_iff)
  finally show ?thesis using assms Finite
    by (simp add: js_strict_neq_def divisible_by_def)
qed (simp_all add: js_strict_neq_def divisible_by_def)

lemma divisible_by_of_int:
  assumes "0 < k"
  shows "divisible_by (of_int k) (Finite (of_int m)) \<longleftrightarrow> k dvd m"
proof
  assume "divisible_by (of_int k) (Finite (of_int m))"
  then have "rat_of_int m / of_int k \<in> \<int>" by (simp add: divisible_by_def)
  then obtain j :: int where j: "rat_of_int m / of_int k = of_int j" by (auto elim: Ints_cases)
  have "rat_of_int m = of_int (j * k)" using j assms by (simp add: field_simps)
  then have "m = j * k" by (simp only: of_int_eq_iff)
  then show "k dvd m" by simp
next
  assume "k dvd m"
  then obtain j where "m = k * j" by (auto elim: dvdE)
  then show "divisible_by (of_int k) (Finite (of_int m))"
    using assms by (simp add: divisible_by_def)
qed

lemma frames_minus_one_exact:
  assumes "\<bar>n - 1\<bar> < 2 ^ 53"
  shows "js_sub (Finite (of_int n)) (Finite 1) = Finite (of_int (n - 1))"
  using round_double_int_exact[OF assms] by simp

lemma validateDimensions_fails:
  "validateDimensions c \<noteq> Inr () \<longleftrightarrow>
     (\<not> divisible_by 32 (width c) \<or> \<not> divisible_by 32 (height c)
      \<or> \<not> divisible_by 8 (js_sub (numFrames c) (Finite 1))
      \<or> js_lt (inferenceSteps c) (Finite 1) \<or> js_lt (guidanceScale c) (Finite 0))"
  by (auto simp add: validateDimensions_def remainder_check)

lemma validateDimensions_initial: "validateDimensions initial = Inr ()"
  using frames_minus_one_exact[of 161]
  by (simp add: validateDimensions_def initial_def js_strict_neq_def trunc_def)

lemma validateDimensions_frames_int:
  assumes "\<bar>n - 1\<bar> < 2 ^ 53" "numFrames c = Finite (of_int n)"
  shows "divisible_by 8 (js_sub (numFrames c) (Finite 1)) \<longleftrightarrow> 8 dvd (n - 1)"
  using frames_minus_one_exact[OF assms(1)] divisible_by_of_int[of 8 "n - 1"] assms(2)
  by simp

lemma validateDimensions_throws_Error:
  "validateDimensions c = Inl e \<Longrightarrow> \<exists>m. e = Error m"
  by (auto simp add: validateDimensions_def split: if_splits)

lemma validateDimensions_steps_0:
  "validateDimensions (initial\<lparr>inferenceSteps := Finite 0\<rparr>) =
     Inl (Error ''Inference steps must be positive'')"
  using frames_minus_one_exact[of 161]
  by (simp add: validateDimensions_def initial_def js_strict_neq_def trunc_def)

lemma validateDimensions_steps_1:
  "validateDimensions (initial\<lparr>inferenceSteps := Finite 1\<rparr>) = Inr ()"
  using frames_minus_one_exact[of 161]
  by (simp add: validateDimensions_def initial_def js_strict_neq_def trunc_def)

lemma validateDimensions_guidance_negative:
  "g < 0 \<Longrightarrow> validateDimensions (initial\<lparr>guidanceScale := Finite g\<rparr>) =
     Inl (Error ''Guidance scale must be non-negative'')"
  using frames_minus_one_exact[of 161]
  by (simp add: validateDimensions_def initial_def js_strict_neq_def trunc_def)

lemma validateDimensions_guidance_0:
  "validateDimensions (initial\<lparr>guidanceScale := Finite 0\<rparr>) = Inr ()"
  using frames_minus_one_exact[of 161]
  by (simp add: validateDimensions_def initial_def js_strict_neq_def trunc_def)

text \<open>
  Claim C1, as amended. \<open>validateDimensions\<close> throws exactly when the width is not
  divisible by 32, or the height is not divisible by 32, or the double that the
  subtraction \<^verbatim>\<open>numFrames - 1\<close> computes (the difference rounded to the nearest double) is
  not divisible by 8, or the inference steps are below 1, or the guidance scale is below
  0; what it throws is an \<^verbatim>\<open>Error\<close>. For every integer number of frames \<open>n\<close> with
  \<open>\<bar>n - 1\<bar> < 2 ^ 53\<close> the subtraction is exact, and the third condition is that 8 does
  not divide \<open>n - 1\<close>. With the other fields at their defaults, 0 inference steps fail
  and 1 passes; a guidance scale of -0.1 (the rational, and the double that the literal
  denotes) fails and 0 passes.
\<close>

theorem validateDimensions_fails_exactly_when:
  "(validateDimensions c \<noteq> Inr () \<longleftrightarrow>
      (\<not> divisible_by 32 (width c) \<or> \<not> divisible_by 32 (height c)
       \<or> \<not> divisible_by 8 (js_sub (numFrames c) (Finite 1))
       \<or> js_lt (inferenceSteps c) (Finite 1) \<or> js_lt (guidanceScale c) (Finite 0)))
   \<and> (\<forall>e. validateDimensions c = Inl e \<longrightarrow> (\<exists>m. e = Error m))
   \<and> (\<forall>n. \<bar>n - 1\<bar> < 2 ^ 53 \<and> numFrames c = Finite (of_int n) \<longrightarrow>
         (divisible_by 8 (js_sub (numFrames c) (Finite 1)) \<longleftrightarrow> 8 dvd (n - 1)))
   \<and> validateDimensions (initial\<lparr>inferenceSteps := Finite 0\<rparr>) =
         Inl (Error ''Inference steps must be positive'')
   \<and> validateDimensions (initial\<lparr>inferenceSteps := Finite 1\<rparr>) = Inr ()
   \<and> validateDimensions (initial\<lparr>guidanceScale := Finite (- 1 / 10)\<rparr>) =
         Inl (Error ''Guidance scale must be non-negative'')
   \<and> validateDimensions
         (initial\<lparr>guidanceScale := Finite (- 3602879701896397 / 36028797018963968)\<rparr>) =
         Inl (Error ''Guidance scale must be non-negative'')
   \<and> validateDimensions (initial\<lparr>guidanceScale := Finite 0\<rparr>) = Inr ()"
proof -
  have neg1: "(- 1 / 10 :: rat) < 0" by simp
  have neg2: "(- 3602879701896397 / 36028797018963968 :: rat) < 0" by simp
  show ?thesis
    using validateDimensions_fails[of c] validateDimensions_throws_Error[of c]
      validateDimensions_frames_int[of _ c]
      validateDimensions_steps_0 validateDimensions_steps_1
      validateDimensions_guidance_negative[OF neg1] validateDimensions_guidance_negative[OF neg2]
      validateDimensions_guidance_0
    by blast
qed

theorem validateDimensions_fails_exactly_when_witness:
  "validateDimensions (initial\<lparr>width := Finite 100\<rparr>) \<noteq> Inr ()
   \<and> divisible_by 8 (js_sub (numFrames (initial\<lparr>numFrames := Finite 161\<rparr>)) (Finite 1))"
proof -
  have w: "\<not> divisible_by 32 (width (initial\<lparr>width := Finite 100\<rparr>))"
    using divisible_by_of_int[of 32 100] by simp
  have f: "\<bar>161 - 1\<bar> < (2::int) ^ 53
        \<and> numFrames (initial\<lparr>numFrames := Finite 161\<rparr>) = Finite (of_int 161)"
    by simp
  have d: "(8::int) dvd 161 - 1" by simp
  show ?thesis
    using validateDimensions_fails_exactly_when[of "initial\<lparr>width := Finite 100\<rparr>"]
      validateDimensions_fails_exactly_when[of "initial\<lparr>numFrames := Finite 161\<rparr>"] w f d
    by blast
qed

lemma round_double_tie: "round_double 9007199254740993 = Finite 9007199254740992"
proof -
  have fl: "\<lfloor>(9007199254740993::rat) / 2\<rfloor> = 4503599627370496"
    by (simp add: floor_eq_iff)
  show ?thesis
    by (simp add: round_double_def floor_log2_def round_half_even_def compute_bitlen Let_def fl)
qed

text \<open>
  Counterexample to claim C1 as stated: the number of frames \<open>2 ^ 53 + 2\<close> is a double;
  its predecessor \<open>2 ^ 53 + 1\<close> is not divisible by 8, and is not a double: the
  subtraction rounds it to \<open>2 ^ 53\<close>, which 8 divides. With the other fields at their
  defaults the validation passes.
\<close>

theorem validateDimensions_passes_after_rounding_counterexample:
  "validateDimensions (initial\<lparr>numFrames := Finite 9007199254740994\<rparr>) = Inr ()
   \<and> \<not> (8::int) dvd 9007199254740994 - 1
   \<and> \<not> divisible_by 8 (Finite (9007199254740994 - 1))"
proof -
  have "validateDimensions (initial\<lparr>numFrames := Finite 9007199254740994\<rparr>) = Inr ()"
    by (simp add: validateDimensions_def initial_def js_strict_neq_def trunc_def
        round_double_tie)
  moreover have "\<not> (8::int) dvd 9007199254740994 - 1" by simp
  moreover have "\<not> divisible_by 8 (Finite (9007199254740994 - 1))"
    using divisible_by_of_int[of 8 "9007199254740994 - 1"] by simp
  ultimately show ?thesis by blast
qed

text \<open>
  Claim C9. The outcome of \<open>validateDimensions\<close> depends on the width, the height, the
  number of frames, the inference steps and the guidance scale only: two components that
  agree on these five pass together or fail together with the same error; the prompt, the
  image URL, the image file and the seed may change freely, and an empty prompt or an
  empty image URL causes no validation error.
\<close>

theorem validateDimensions_reads_numeric_fields_only:
  "(width c = width c' \<and> height c = height c' \<and> numFrames c = numFrames c'
      \<and> inferenceSteps c = inferenceSteps c' \<and> guidanceScale c = guidanceScale c'
      \<longrightarrow> validateDimensions c = validateDimensions c')
   \<and> validateDimensions (c\<lparr>prompt := p, imageUrl := u, imageFile := f, seed := s\<rparr>) =
       validateDimensions c
   \<and> validateDimensions (c\<lparr>prompt := []\<rparr>) = validateDimensions c
   \<and> validateDimensions (c\<lparr>imageUrl := []\<rparr>) = validateDimensions c"
proof -
  have "validateDimensions c = validateDimensions c'"
    if "width c = width c'" "height c = height c'" "numFrames c = numFrames c'"
      "inferenceSteps c = inferenceSteps c'" "guidanceScale c = guidanceScale c'"
    using that by (simp add: validateDimensions_def)
  moreover have "validateDimensions (c\<lparr>prompt := p, imageUrl := u, imageFile := f, seed := s\<rparr>) =
       validateDimensions c"
    by (simp add: validateDimensions_def)
  moreover have "validateDimensions (c\<lparr>prompt := []\<rparr>) = validateDimensions c"
    by (simp add: validateDimensions_def)
  moreover have "validateDimensions (c\<lparr>imageUrl := []\<rparr>) = validateDimensions c"
    by (simp add: validateDimensions_def)
  ultimately show ?thesis by blast
qed

theorem validateDimensions_reads_numeric_fields_only_witness:
  "validateDimensions (initial\<lparr>prompt := ''a cat'', seed := Some (Finite 7)\<rparr>) =
     validateDimensions initial"
  using validateDimensions_reads_numeric_fields_only
    [of "initial\<lparr>prompt := ''a cat'', seed := Some (Finite 7)\<rparr>" initial]
  by simp

section \<open>The paths of a submission\<close>

lemma validateDimensions_ignores_flags:
  "validateDimensions (c\<lparr>loading := l, error := e\<rparr>) = validateDimensions c"
  by (simp add: validateDimensions_def)

lemma add_image_ignores_flags:
  "add_image env (c\<lparr>loading := l, error := e\<rparr>) p = add_image env c p"
  by (simp add: add_image_def)

lemma try_block_ignores_flags:
  "try_block env (c\<lparr>loading := l, error := e\<rparr>) = try_block env c"
  by (simp add: try_block_def validateDimensions_ignores_flags add_image_ignores_flags
      add_seed_def payload_literal_def
      split: sum.split option.split prod.split completion.split)

lemma try_block_validation_failure:
  "validateDimensions c = Inl e \<Longrightarrow>
     try_block env c = \<lparr> completion = Throw e, requests = [], awaits = 0 \<rparr>"
  by (simp add: try_block_def)

lemma try_block_not_configured:
  "validateDimensions c = Inr () \<Longrightarrow> VITE_BACKEND_URL env = None \<or> VITE_BACKEND_URL env = Some [] \<Longrightarrow>
     try_block env c = \<lparr> completion = Throw config_error, requests = [], awaits = 0 \<rparr>"
  by (auto simp add: try_block_def)

lemma handleSubmit_Throw:
  "completion (try_block env c) = Throw e \<Longrightarrow>
     handleSubmit env c =
       \<lparr> after = c\<lparr>loading := False, error := Some (caught_message e)\<rparr>, settled = True,
         fetches = requests (try_block env c),
         suspensions = replicate (awaits (try_block env c)) (c\<lparr>loading := True, error := None\<rparr>) \<rparr>"
  by (simp add: handleSubmit_def Let_def try_block_ignores_flags)

lemma handleSubmit_Normal:
  "completion (try_block env c) = Normal j \<Longrightarrow>
     handleSubmit env c =
       \<lparr> after = c\<lparr>loading := False, error := None, result := j\<rparr>, settled = True,
         fetches = requests (try_block env c),
         suspensions = replicate (awaits (try_block env c)) (c\<lparr>loading := True, error := None\<rparr>) \<rparr>"
  by (simp add: handleSubmit_def Let_def try_block_ignores_flags)

lemma handleSubmit_Suspended:
  "completion (try_block env c) = Suspended \<Longrightarrow>
     handleSubmit env c =
       \<lparr> after = c\<lparr>loading := True, error := None\<rparr>, settled = False,
         fetches = requests (try_block env c),
         suspensions = replicate (awaits (try_block env c)) (c\<lparr>loading := True, error := None\<rparr>) \<rparr>"
  by (simp add: handleSubmit_def Let_def try_block_ignores_flags)

lemma handleSubmit_settled_iff:
  "settled (handleSubmit env c) \<longleftrightarrow> completion (try_block env c) \<noteq> Suspended"
  by (cases "completion (try_block env c)")
     (simp_all add: handleSubmit_Normal handleSubmit_Throw handleSubmit_Suspended)

lemma handleSubmit_loading_iff:
  "loading (after (handleSubmit env c)) \<longleftrightarrow> \<not> settled (handleSubmit env c)"
  by (cases "completion (try_block env c)")
     (simp_all add: handleSubmit_Normal handleSubmit_Throw handleSubmit_Suspended)

lemma handleSubmit_suspensions:
  "s \<in> set (suspensions (handleSubmit env c)) \<Longrightarrow> s = c\<lparr>loading := True, error := None\<rparr>"
  by (cases "completion (try_block env c)")
     (simp_all add: handleSubmit_Normal handleSubmit_Throw handleSubmit_Suspended)

lemma handleSubmit_fetches:
  "fetches (handleSubmit env c) = requests (try_block env c)"
  by (cases "completion (try_block env c)")
     (simp_all add: handleSubmit_Normal handleSubmit_Throw handleSubmit_Suspended)

lemma await_not_Suspended: "p \<noteq> Pending \<Longrightarrow> await p \<noteq> Suspended"
  by (cases p) (simp_all add: await_def)

lemma add_image_not_Suspended:
  assumes "\<forall>f. readAsDataURL env f \<noteq> Pending"
  shows "fst (add_image env c p) \<noteq> Suspended"
proof (cases "inputMethod c = Url")
  case True
  then show ?thesis by (simp add: add_image_def)
next
  case False
  show ?thesis
  proof (cases "imageFile c")
    case None
    with False show ?thesis by (simp add: add_image_def)
  next
    case (Some f)
    have "readAsDataURL env f \<noteq> Pending" using assms by blast
    then show ?thesis using False Some
      by (cases "readAsDataURL env f") (simp_all add: add_image_def await_def)
  qed
qed

lemma receive_not_Suspended:
  assumes "response_text resp \<noteq> Pending" "response_json resp \<noteq> Pending"
  shows "receive env resp \<noteq> Suspended"
proof (cases "response_ok resp")
  case True
  then show ?thesis using await_not_Suspended[OF assms(2)] by (simp add: receive_def)
next
  case False
  then show ?thesis using assms(1)
    by (cases "response_text resp") (simp_all add: receive_def await_def)
qed

lemma send_not_Suspended:
  assumes "\<forall>req. fetch env req \<noteq> Pending"
    and "\<forall>req resp. fetch env req = Fulfilled resp \<longrightarrow>
           response_text resp \<noteq> Pending \<and> response_json resp \<noteq> Pending"
  shows "completion (send env b p n) \<noteq> Suspended"
proof -
  define req where "req = fetch_arguments b p"
  have np: "fetch env req \<noteq> Pending" using assms(1) by blast
  show ?thesis
  proof (cases "fetch env req")
    case (Fulfilled resp)
    then have "response_text resp \<noteq> Pending" "response_json resp \<noteq> Pending"
      using assms(2) by blast+
    then have "receive env resp \<noteq> Suspended" by (rule receive_not_Suspended)
    then show ?thesis using Fulfilled
      by (simp add: send_def Let_def await_def req_def[symmetric])
  next
    case (Rejected e)
    then show ?thesis by (simp add: send_def Let_def await_def req_def[symmetric])
  next
    case Pending
    with np show ?thesis by simp
  qed
qed

lemma try_block_not_Suspended:
  assumes "\<forall>f. readAsDataURL env f \<noteq> Pending"
    and "\<forall>req. fetch env req \<noteq> Pending"
    and "\<forall>req resp. fetch env req = Fulfilled resp \<longrightarrow>
           response_text resp \<noteq> Pending \<and> response_json resp \<noteq> Pending"
  shows "completion (try_block env c) \<noteq> Suspended"
proof (cases "validateDimensions c")
  case (Inl e)
  then show ?thesis by (simp add: try_block_validation_failure)
next
  case (Inr u)
  show ?thesis
  proof (cases "VITE_BACKEND_URL env = None \<or> VITE_BACKEND_URL env = Some []")
    case True
    then show ?thesis using Inr try_block_not_configured[of c env] by auto
  next
    case False
    then obtain b where b: "VITE_BACKEND_URL env = Some b" "b \<noteq> []" by auto
    obtain r n where a: "add_image env c (payload_literal c) = (r, n)" by (cases "add_image env c (payload_literal c)")
    have "r \<noteq> Suspended" using add_image_not_Suspended[OF assms(1), of c "payload_literal c"] a by simp
    then show ?thesis using Inr b a send_not_Suspended[OF assms(2,3)]
      by (cases r) (simp_all add: try_block_def)
  qed
qed

section \<open>Failures before the network\<close>

lemma handleSubmit_validation_failure:
  assumes "validateDimensions c = Inl e"
  shows "handleSubmit env c =
     \<lparr> after = c\<lparr>loading := False, error := Some (caught_message e)\<rparr>, settled = True,
       fetches = [], suspensions = [] \<rparr>"
  using handleSubmit_Throw[of env c e] try_block_validation_failure[OF assms, of env] by simp

lemma handleSubmit_not_configured:
  assumes "validateDimensions c = Inr ()"
    and "VITE_BACKEND_URL env = None \<or> VITE_BACKEND_URL env = Some []"
  shows "handleSubmit env c =
     \<lparr> after = c\<lparr>loading := False, error := Some (caught_message config_error)\<rparr>,
       settled = True, fetches = [], suspensions = [] \<rparr>"
  using handleSubmit_Throw[of env c config_error] try_block_not_configured[OF assms] by simp

lemma width_height_message:
  assumes "\<not> divisible_by 32 (width c) \<or> \<not> divisible_by 32 (height c)"
  shows "validateDimensions c = Inl (Error ''Width and height must be divisible by 32'')"
  using assms by (auto simp add: validateDimensions_def remainder_check)

text \<open>
  Claim C2. When a check of \<open>validateDimensions\<close> fails, the submission makes no call of
  \<^verbatim>\<open>fetch\<close> and reaches no await at all: it settles at once with the message of the
  failing check as the error, every other variable unchanged. In particular a width or a
  height that is not divisible by 32 gives no network call and the message of the first
  check.
\<close>

theorem failed_validation_makes_no_network_call:
  "(\<forall>e. validateDimensions c = Inl e \<longrightarrow>
      fetches (handleSubmit env c) = [] \<and> suspensions (handleSubmit env c) = []
      \<and> settled (handleSubmit env c)
      \<and> after (handleSubmit env c) = c\<lparr>loading := False, error := Some (caught_message e)\<rparr>)
   \<and> (\<not> divisible_by 32 (width c) \<or> \<not> divisible_by 32 (height c) \<longrightarrow>
      fetches (handleSubmit env c) = []
      \<and> error (after (handleSubmit env c)) = Some ''Width and height must be divisible by 32'')"
proof -
  have "fetches (handleSubmit env c) = []
      \<and> error (after (handleSubmit env c)) = Some ''Width and height must be divisible by 32''"
    if "\<not> divisible_by 32 (width c) \<or> \<not> divisible_by 32 (height c)"
    using handleSubmit_validation_failure[OF width_height_message[OF that], of env]
    by (simp add: caught_message_def)
  then show ?thesis
    using handleSubmit_validation_failure[of c _ env] by auto
qed

theorem failed_validation_makes_no_network_call_witness:
  "fetches (handleSubmit
      (example_platform (Some ''http://gateway'') Pending
         (Fulfilled response_200))
      (initial\<lparr>width := Finite 100, numFrames := Finite 10\<rparr>)) = []
   \<and> error (after (handleSubmit
      (example_platform (Some ''http://gateway'') Pending
         (Fulfilled response_200))
      (initial\<lparr>width := Finite 100, numFrames := Finite 10\<rparr>))) =
     Some ''Width and height must be divisible by 32''"
proof -
  have w: "\<not> divisible_by 32 (width (initial\<lparr>width := Finite 100, numFrames := Finite 10\<rparr>))"
    using divisible_by_of_int[of 32 100] by simp
  show ?thesis
    using failed_validation_makes_no_network_call
      [of "initial\<lparr>width := Finite 100, numFrames := Finite 10\<rparr>"] w
    by blast
qed

lemma missing_config_settles:
  assumes "VITE_BACKEND_URL env = None \<or> VITE_BACKEND_URL env = Some []"
  shows "settled (handleSubmit env c)"
proof (cases "validateDimensions c")
  case (Inl e)
  then show ?thesis by (simp add: handleSubmit_validation_failure)
next
  case (Inr u)
  then show ?thesis using handleSubmit_not_configured[OF _ assms, of c] by simp
qed

text \<open>
  Claim C7. When the base URL of the backend is absent (undefined or empty), the
  submission makes no call of \<^verbatim>\<open>fetch\<close> and reaches no await; it settles with an error
  that the template displays: the configuration message when the validation passes (the
  validation message when it does not). The error is stored exactly as a validation
  error is: only \<open>error\<close> and \<open>loading\<close> change.
\<close>

theorem missing_backend_url_is_reported_without_fetch:
  "VITE_BACKEND_URL env = None \<or> VITE_BACKEND_URL env = Some [] \<Longrightarrow>
     fetches (handleSubmit env c) = [] \<and> suspensions (handleSubmit env c) = []
     \<and> settled (handleSubmit env c)
     \<and> after (handleSubmit env c) =
         c\<lparr>loading := False,
           error := Some (case validateDimensions c of
                            Inl e \<Rightarrow> caught_message e
                          | Inr u \<Rightarrow>
  ''Backend URL is not configured. Please check your environment variables.'')\<rparr>
     \<and> displayed_error (after (handleSubmit env c)) \<noteq> None"
proof -
  assume cfg: "VITE_BACKEND_URL env = None \<or> VITE_BACKEND_URL env = Some []"
  show ?thesis
  proof (cases "validateDimensions c")
    case (Inl e)
    obtain m where m: "e = Error m" "m \<noteq> []"
      using Inl by (auto simp add: validateDimensions_def split: if_splits)
    show ?thesis using handleSubmit_validation_failure[OF Inl, of env] Inl m
      by (simp add: displayed_error_def caught_message_def)
  next
    case (Inr u)
    then show ?thesis using handleSubmit_not_configured[OF _ cfg, of c]
      by (simp add: displayed_error_def caught_message_def config_error_def)
  qed
qed

theorem missing_backend_url_is_reported_without_fetch_witness:
  "fetches (handleSubmit
      (example_platform None Pending
         (Fulfilled response_200)) initial) = []
   \<and> displayed_error (after (handleSubmit
      (example_platform None Pending
         (Fulfilled response_200)) initial)) =
     Some ''Backend URL is not configured. Please check your environment variables.''"
proof -
  have cfg: "VITE_BACKEND_URL (example_platform None Pending
         (Fulfilled response_200)) = None
     \<or> VITE_BACKEND_URL (example_platform None Pending
         (Fulfilled response_200)) = Some []"
    by (simp add: example_platform_def)
  show ?thesis
    using missing_backend_url_is_reported_without_fetch[OF cfg, of initial]
    by (simp add: displayed_error_def validateDimensions_initial)
qed

text \<open>
  Claim C5. A submission that has settled has \<open>loading\<close> false; a submission that has
  not settled has it true, and it is true in every state at an await. The submission
  settles, with \<open>loading\<close> false, when the validation fails, when the base URL is
  absent, and whenever no awaited promise stays pending: on success and on a network
  failure alike.
\<close>

theorem loading_is_cleared_on_every_exit:
  "(settled (handleSubmit env c) \<longrightarrow> \<not> loading (after (handleSubmit env c)))
   \<and> (\<not> settled (handleSubmit env c) \<longrightarrow> loading (after (handleSubmit env c)))
   \<and> (\<forall>s \<in> set (suspensions (handleSubmit env c)). loading s)
   \<and> (validateDimensions c \<noteq> Inr () \<longrightarrow>
        settled (handleSubmit env c) \<and> \<not> loading (after (handleSubmit env c)))
   \<and> (VITE_BACKEND_URL env = None \<or> VITE_BACKEND_URL env = Some [] \<longrightarrow>
        settled (handleSubmit env c) \<and> \<not> loading (after (handleSubmit env c)))
   \<and> ((\<forall>f. readAsDataURL env f \<noteq> Pending) \<and> (\<forall>req. fetch env req \<noteq> Pending)
        \<and> (\<forall>req resp. fetch env req = Fulfilled resp \<longrightarrow>
              response_text resp \<noteq> Pending \<and> response_json resp \<noteq> Pending) \<longrightarrow>
        settled (handleSubmit env c) \<and> \<not> loading (after (handleSubmit env c)))"
proof -
  have a: "loading (after (handleSubmit env c)) \<longleftrightarrow> \<not> settled (handleSubmit env c)"
    by (rule handleSubmit_loading_iff)
  have b: "\<forall>s \<in> set (suspensions (handleSubmit env c)). loading s"
  proof
    fix s assume "s \<in> set (suspensions (handleSubmit env c))"
    then have "s = c\<lparr>loading := True, error := None\<rparr>" by (rule handleSubmit_suspensions)
    then show "loading s" by simp
  qed
  have v: "settled (handleSubmit env c)" if "validateDimensions c \<noteq> Inr ()"
  proof -
    have "\<exists>e. validateDimensions c = Inl e"
      using that by (cases "validateDimensions c") simp_all
    then show ?thesis by (auto simp add: handleSubmit_validation_failure)
  qed
  have g: "settled (handleSubmit env c)"
    if "VITE_BACKEND_URL env = None \<or> VITE_BACKEND_URL env = Some []"
    using missing_config_settles that by blast
  have n: "settled (handleSubmit env c)"
    if "\<forall>f. readAsDataURL env f \<noteq> Pending" "\<forall>req. fetch env req \<noteq> Pending"
      "\<forall>req resp. fetch env req = Fulfilled resp \<longrightarrow>
              response_text resp \<noteq> Pending \<and> response_json resp \<noteq> Pending"
    using try_block_not_Suspended[OF that] by (simp add: handleSubmit_settled_iff)
  show ?thesis using a b v g n by blast
qed

theorem loading_is_cleared_on_every_exit_witness:
  "settled (handleSubmit
      (example_platform (Some ''http://gateway'') (Rejected NotAnError)
         (Rejected (Error ''Failed to fetch'')))
      initial)
   \<and> \<not> loading (after (handleSubmit
      (example_platform (Some ''http://gateway'') (Rejected NotAnError)
         (Rejected (Error ''Failed to fetch'')))
      initial))"
proof -
  let ?env = "example_platform (Some ''http://gateway'') (Rejected NotAnError)
         (Rejected (Error ''Failed to fetch''))"
  have "(\<forall>f. readAsDataURL ?env f \<noteq> Pending) \<and> (\<forall>req. fetch ?env req \<noteq> Pending)
        \<and> (\<forall>req resp. fetch ?env req = Fulfilled resp \<longrightarrow>
              response_text resp \<noteq> Pending \<and> response_json resp \<noteq> Pending)"
    by (simp add: example_platform_def)
  then show ?thesis
    using loading_is_cleared_on_every_exit[of ?env initial] by blast
qed

section \<open>The error and the result across a submission\<close>

lemma handleSubmit_previous_error:
  "handleSubmit env (c\<lparr>error := e0\<rparr>) = handleSubmit env c"
proof -
  have u: "c\<lparr>error := e0\<rparr> = c\<lparr>loading := loading c, error := e0\<rparr>" by simp
  have "try_block env (c\<lparr>error := e0\<rparr>) = try_block env c"
    by (subst u) (rule try_block_ignores_flags)
  then show ?thesis
    by (cases "completion (try_block env c)")
       (simp_all add: handleSubmit_Normal handleSubmit_Throw handleSubmit_Suspended)
qed

lemma handleSubmit_error_after:
  "error (after (handleSubmit env c)) =
     (case completion (try_block env c) of
        Throw e \<Rightarrow> Some (caught_message e) | Normal j \<Rightarrow> None | Suspended \<Rightarrow> None)"
  by (cases "completion (try_block env c)")
     (simp_all add: handleSubmit_Normal handleSubmit_Throw handleSubmit_Suspended)

lemma handleSubmit_failed_after:
  assumes "error (after (handleSubmit env c)) \<noteq> None"
  shows "after (handleSubmit env c) = c\<lparr>loading := False, error := error (after (handleSubmit env c))\<rparr>"
  using assms
  by (cases "completion (try_block env c)")
     (simp_all add: handleSubmit_Normal handleSubmit_Throw handleSubmit_Suspended)

text \<open>
  Claim C10. The previous error has no influence on a submission: it is cleared before
  anything else runs, so the error is \<^verbatim>\<open>null\<close> in every state at an await and in a
  submission that stays suspended, and after the submission it is the message of what the
  \<^verbatim>\<open>try\<close> block threw, or \<^verbatim>\<open>null\<close>. On every error path the result is the one from before
  the submission; only \<open>error\<close> and \<open>loading\<close> differ from the component submitted.
\<close>

theorem error_cleared_first_and_result_kept_on_failure:
  "handleSubmit env (c\<lparr>error := e0\<rparr>) = handleSubmit env c
   \<and> (\<forall>s \<in> set (suspensions (handleSubmit env c)). error s = None \<and> result s = result c)
   \<and> (\<not> settled (handleSubmit env c) \<longrightarrow>
        error (after (handleSubmit env c)) = None
        \<and> result (after (handleSubmit env c)) = result c)
   \<and> (error (after (handleSubmit env c)) \<noteq> None \<longrightarrow>
        settled (handleSubmit env c)
        \<and> result (after (handleSubmit env c)) = result c
        \<and> after (handleSubmit env c) =
            c\<lparr>loading := False, error := error (after (handleSubmit env c))\<rparr>)
   \<and> (\<forall>e. completion (try_block env c) = Throw e \<longrightarrow>
        error (after (handleSubmit env c)) = Some (caught_message e)
        \<and> result (after (handleSubmit env c)) = result c)"
proof -
  have a: "\<forall>s \<in> set (suspensions (handleSubmit env c)). error s = None \<and> result s = result c"
  proof
    fix s assume "s \<in> set (suspensions (handleSubmit env c))"
    then have "s = c\<lparr>loading := True, error := None\<rparr>" by (rule handleSubmit_suspensions)
    then show "error s = None \<and> result s = result c" by simp
  qed
  have b: "error (after (handleSubmit env c)) = None
        \<and> result (after (handleSubmit env c)) = result c"
    if "\<not> settled (handleSubmit env c)"
    using that
    by (cases "completion (try_block env c)")
       (simp_all add: handleSubmit_Normal handleSubmit_Throw handleSubmit_Suspended)
  have d: "settled (handleSubmit env c)
        \<and> result (after (handleSubmit env c)) = result c
        \<and> after (handleSubmit env c) =
            c\<lparr>loading := False, error := error (after (handleSubmit env c))\<rparr>"
    if "error (after (handleSubmit env c)) \<noteq> None"
    using that
    by (cases "completion (try_block env c)")
       (simp_all add: handleSubmit_Normal handleSubmit_Throw handleSubmit_Suspended)
  have e: "error (after (handleSubmit env c)) = Some (caught_message e)
        \<and> result (after (handleSubmit env c)) = result c"
    if "completion (try_block env c) = Throw e" for e
    using that by (simp add: handleSubmit_Throw)
  show ?thesis using handleSubmit_previous_error[where env = env and c = c and ?e0.0 = e0] a b d e by blast
qed

theorem error_cleared_first_and_result_kept_on_failure_witness:
  "handleSubmit (example_platform None Pending Pending)
      (initial\<lparr>result := JString ''earlier'', error := Some ''old message''\<rparr>) =
   \<lparr> after = initial\<lparr>result := JString ''earlier'',
        error := Some ''Backend URL is not configured. Please check your environment variables.''\<rparr>,
     settled = True, fetches = [], suspensions = [] \<rparr>"
proof -
  let ?env = "example_platform None Pending Pending"
  let ?c = "initial\<lparr>result := JString ''earlier''\<rparr>"
  have "validateDimensions ?c = validateDimensions initial"
    by (simp add: validateDimensions_def)
  then have v: "validateDimensions ?c = Inr ()"
    by (simp only: validateDimensions_initial)
  have "handleSubmit ?env (?c\<lparr>error := Some ''old message''\<rparr>) = handleSubmit ?env ?c"
    using error_cleared_first_and_result_kept_on_failure
      [where env = ?env and c = ?c and ?e0.0 = "Some ''old message''"]
    by blast
  moreover have "handleSubmit ?env ?c =
     \<lparr> after = ?c\<lparr>loading := False, error := Some (caught_message config_error)\<rparr>,
       settled = True, fetches = [], suspensions = [] \<rparr>"
    by (rule handleSubmit_not_configured[OF v]) (simp add: example_platform_def)
  ultimately show ?thesis
    by (simp add: caught_message_def config_error_def initial_def)
qed

section \<open>The payload\<close>

lemma add_image_Url:
  "inputMethod c = Url \<Longrightarrow>
     add_image env c p = (Normal (set_property ''image_url'' (JString (imageUrl c)) p), 0)"
  by (simp add: add_image_def)

lemma add_image_no_file:
  "inputMethod c = FileUpload \<Longrightarrow> imageFile c = None \<Longrightarrow> add_image env c p = (Normal p, 0)"
  by (simp add: add_image_def)

lemma add_image_file:
  "inputMethod c = FileUpload \<Longrightarrow> imageFile c = Some f \<Longrightarrow> readAsDataURL env f = Fulfilled d \<Longrightarrow>
     add_image env c p = (Normal (set_property ''image_base64'' (JString d) p), 1)"
  by (simp add: add_image_def await_def)

lemma requests_send: "requests (send env b p n) = [fetch_arguments b p]"
  by (cases "fetch env (fetch_arguments b p)") (simp_all add: send_def Let_def await_def)

lemma completion_send_Fulfilled:
  "fetch env (fetch_arguments b p) = Fulfilled resp \<Longrightarrow>
     completion (send env b p n) = receive env resp"
  by (simp add: send_def Let_def await_def)

lemma try_block_send:
  assumes "validateDimensions c = Inr ()" "VITE_BACKEND_URL env = Some b" "b \<noteq> []"
    and "add_image env c (payload_literal c) = (Normal p, n)"
  shows "try_block env c = send env b (add_seed c p) n"
  using assms by (simp add: try_block_def)

lemma try_block_requests_cases:
  "requests (try_block env c) = []
   \<or> (\<exists>b p n. add_image env c (payload_literal c) = (Normal p, n)
         \<and> requests (try_block env c) = [fetch_arguments b (add_seed c p)])"
proof (cases "validateDimensions c")
  case (Inl e)
  then show ?thesis by (simp add: try_block_validation_failure)
next
  case (Inr u)
  show ?thesis
  proof (cases "VITE_BACKEND_URL env = None \<or> VITE_BACKEND_URL env = Some []")
    case True
    then show ?thesis using Inr try_block_not_configured[of c env] by auto
  next
    case False
    then obtain b where b: "VITE_BACKEND_URL env = Some b" "b \<noteq> []" by auto
    obtain r n where a: "add_image env c (payload_literal c) = (r, n)"
      by (cases "add_image env c (payload_literal c)")
    show ?thesis
    proof (cases r)
      case (Normal p)
      then have "try_block env c = send env b (add_seed c p) n"
        using try_block_send[of c env b p n] Inr b a by simp
      then show ?thesis using a Normal by (auto simp add: requests_send)
    next
      case (Throw e)
      then show ?thesis using Inr b a by (simp add: try_block_def)
    next
      case Suspended
      then show ?thesis using Inr b a by (simp add: try_block_def)
    qed
  qed
qed

lemma keys_set_property: "fst ` set (set_property k v kvs) = insert k (fst ` set kvs)"
proof (induction kvs)
  case Nil
  show ?case by simp
next
  case (Cons kv kvs)
  obtain k' v' where kv: "kv = (k', v')" by (cases kv)
  show ?case
  proof (cases "k' = k")
    case True
    then show ?thesis using kv by simp
  next
    case False
    then show ?thesis using kv Cons.IH by (simp add: insert_commute)
  qed
qed

lemma keys_add_seed:
  "fst ` set (add_seed c p) = (if seed c = None then fst ` set p else insert ''seed'' (fst ` set p))"
  by (cases "seed c") (simp_all add: add_seed_def keys_set_property)

lemma keys_written: "fst ` set (map (\<lambda>(k, v). (k, f v)) kvs) = fst ` set kvs"
  by (induction kvs) auto

lemma keys_payload_literal:
  "fst ` set (payload_literal c) =
     {''prompt'', ''inference_steps'', ''guidance_scale'', ''width'', ''height'', ''num_frames''}"
  by (simp add: payload_literal_def)

lemma image_keys_of_payload:
  assumes "add_image env c (payload_literal c) = (Normal p, n)"
  shows "(''image_url'' \<in> fst ` set (add_seed c p) \<longleftrightarrow> inputMethod c = Url)
     \<and> (''image_base64'' \<in> fst ` set (add_seed c p) \<longleftrightarrow>
          inputMethod c = FileUpload \<and> imageFile c \<noteq> None)"
proof (cases "inputMethod c")
  case Url
  then have "p = set_property ''image_url'' (JString (imageUrl c)) (payload_literal c)"
    using assms by (simp add: add_image_Url)
  then show ?thesis using Url
    by (simp add: keys_add_seed keys_set_property keys_payload_literal)
next
  case FileUpload
  show ?thesis
  proof (cases "imageFile c")
    case None
    then have "p = payload_literal c" using assms FileUpload by (simp add: add_image_no_file)
    then show ?thesis using FileUpload None
      by (simp add: keys_add_seed keys_payload_literal)
  next
    case (Some f)
    then obtain d where "p = set_property ''image_base64'' (JString d) (payload_literal c)"
      using assms FileUpload
      by (cases "readAsDataURL env f") (auto simp add: add_image_def await_def)
    then show ?thesis using FileUpload Some
      by (simp add: keys_add_seed keys_set_property keys_payload_literal)
  qed
qed

text \<open>
  Claim C6, as amended. In the payload of every request a submission sends, the key
  \<^verbatim>\<open>image_url\<close> is present exactly when the input method is the URL, and the key
  \<^verbatim>\<open>image_base64\<close> exactly when the input method is the file upload and a file is selected;
  the two are never present together. (With the file upload selected and no file, the
  guard of line 57 skips the image and the payload has neither key: see the
  counterexample.)
\<close>

theorem image_source_fields_follow_input_method:
  "\<forall>req \<in> set (fetches (handleSubmit env c)). \<exists>kvs. body req = JObject kvs
      \<and> (''image_url'' \<in> fst ` set kvs \<longleftrightarrow> inputMethod c = Url)
      \<and> (''image_base64'' \<in> fst ` set kvs \<longleftrightarrow>
           inputMethod c = FileUpload \<and> imageFile c \<noteq> None)
      \<and> \<not> (''image_url'' \<in> fst ` set kvs \<and> ''image_base64'' \<in> fst ` set kvs)"
proof
  fix req assume "req \<in> set (fetches (handleSubmit env c))"
  then have r: "req \<in> set (requests (try_block env c))" by (simp add: handleSubmit_fetches)
  then obtain b p n where a: "add_image env c (payload_literal c) = (Normal p, n)"
    and q: "req = fetch_arguments b (add_seed c p)"
    using try_block_requests_cases[of env c] by auto
  have "body req = JObject (map (\<lambda>(k, v). (k, JSON_stringify v)) (add_seed c p))"
    using q by (simp add: fetch_arguments_def)
  moreover have "fst ` set (map (\<lambda>(k, v). (k, JSON_stringify v)) (add_seed c p)) =
      fst ` set (add_seed c p)"
    by (rule keys_written)
  ultimately show "\<exists>kvs. body req = JObject kvs
      \<and> (''image_url'' \<in> fst ` set kvs \<longleftrightarrow> inputMethod c = Url)
      \<and> (''image_base64'' \<in> fst ` set kvs \<longleftrightarrow>
           inputMethod c = FileUpload \<and> imageFile c \<noteq> None)
      \<and> \<not> (''image_url'' \<in> fst ` set kvs \<and> ''image_base64'' \<in> fst ` set kvs)"
    using image_keys_of_payload[OF a] by auto
qed

lemma handleSubmit_sends:
  assumes "validateDimensions c = Inr ()" "VITE_BACKEND_URL env = Some b" "b \<noteq> []"
    and "add_image env c (payload_literal c) = (Normal p, n)"
  shows "fetches (handleSubmit env c) = [fetch_arguments b (add_seed c p)]"
  using try_block_send[OF assms] by (simp add: handleSubmit_fetches requests_send)

lemma try_block_received:
  assumes "validateDimensions c = Inr ()" "VITE_BACKEND_URL env = Some b" "b \<noteq> []"
    and "add_image env c (payload_literal c) = (Normal p, n)"
    and "fetch env (fetch_arguments b (add_seed c p)) = Fulfilled resp"
  shows "completion (try_block env c) = receive env resp"
  using try_block_send[OF assms(1-4)] completion_send_Fulfilled[OF assms(5)] by simp

lemma validateDimensions_example:
  "validateDimensions (initial\<lparr>prompt := q, imageUrl := u, inputMethod := m\<rparr>) = Inr ()"
proof -
  have "validateDimensions (initial\<lparr>prompt := q, imageUrl := u, inputMethod := m\<rparr>) =
      validateDimensions initial"
    by (simp add: validateDimensions_def)
  then show ?thesis by (simp only: validateDimensions_initial)
qed

theorem image_source_fields_follow_input_method_witness:
  "fetches (handleSubmit (example_platform (Some ''http://gateway'')
        (Fulfilled ''data:image/jpeg;base64,/9j/4AAQ'') (Fulfilled response_200))
      (initial\<lparr>prompt := ''a cat'', imageUrl := [], inputMethod := FileUpload,
         imageFile := Some (File ''cat.jpg'')\<rparr>)) =
     [\<lparr> url = ''http://gateway/generate-video'', http_method = ''POST'',
        body = JObject
          [(''prompt'', JString ''a cat''), (''inference_steps'', JNumber (Finite 50)),
           (''guidance_scale'', JNumber (Finite (15 / 2))), (''width'', JNumber (Finite 704)),
           (''height'', JNumber (Finite 480)), (''num_frames'', JNumber (Finite 161)),
           (''image_base64'', JString ''data:image/jpeg;base64,/9j/4AAQ'')],
        headers = [(''Accept'', ''application/json''),
                   (''Content-Type'', ''application/json'')] \<rparr>]
   \<and> ''image_url'' \<notin> fst ` set
          [(''prompt'', JString ''a cat''), (''inference_steps'', JNumber (Finite 50)),
           (''guidance_scale'', JNumber (Finite (15 / 2))), (''width'', JNumber (Finite 704)),
           (''height'', JNumber (Finite 480)), (''num_frames'', JNumber (Finite 161)),
           (''image_base64'', JString ''data:image/jpeg;base64,/9j/4AAQ'')]"
proof -
  let ?env = "example_platform (Some ''http://gateway'')
        (Fulfilled ''data:image/jpeg;base64,/9j/4AAQ'') (Fulfilled response_200)"
  let ?c = "initial\<lparr>prompt := ''a cat'', imageUrl := [], inputMethod := FileUpload,
         imageFile := Some (File ''cat.jpg'')\<rparr>"
  let ?p = "[(''prompt'', JString ''a cat''), (''inference_steps'', JNumber (Finite 50)),
           (''guidance_scale'', JNumber (Finite (15 / 2))), (''width'', JNumber (Finite 704)),
           (''height'', JNumber (Finite 480)), (''num_frames'', JNumber (Finite 161)),
           (''image_base64'', JString ''data:image/jpeg;base64,/9j/4AAQ'')]"
  have "validateDimensions ?c = validateDimensions initial"
    by (simp add: validateDimensions_def)
  then have v: "validateDimensions ?c = Inr ()" by (simp only: validateDimensions_initial)
  have a: "add_image ?env ?c (payload_literal ?c) = (Normal ?p, 1)"
    by (simp add: add_image_def await_def example_platform_def payload_literal_def initial_def)
  have f: "fetches (handleSubmit ?env ?c) = [fetch_arguments ''http://gateway'' (add_seed ?c ?p)]"
    by (rule handleSubmit_sends[OF v _ _ a]) (simp_all add: example_platform_def)
  have f': "fetches (handleSubmit ?env ?c) =
     [\<lparr> url = ''http://gateway/generate-video'', http_method = ''POST'', body = JObject ?p,
        headers = [(''Accept'', ''application/json''),
                   (''Content-Type'', ''application/json'')] \<rparr>]"
    using f by (simp add: fetch_arguments_def add_seed_def initial_def)
  have "\<exists>kvs. JObject ?p = JObject kvs \<and> (''image_url'' \<in> fst ` set kvs \<longleftrightarrow> inputMethod ?c = Url)"
    using image_source_fields_follow_input_method[of ?env ?c] unfolding f' by simp
  then have "''image_url'' \<notin> fst ` set ?p" by simp
  then show ?thesis using f' by blast
qed

text \<open>
  Counterexample to claim C6 as stated: with the file upload selected and no file chosen
  (\<open>imageFile\<close> is \<^verbatim>\<open>null\<close>, its initial value), the submission sends a request whose
  payload has neither \<^verbatim>\<open>image_url\<close> nor \<^verbatim>\<open>image_base64\<close>.
\<close>

theorem no_image_source_without_file_counterexample:
  "fetches (handleSubmit (example_platform (Some ''http://gateway'') Pending (Fulfilled response_200))
      (initial\<lparr>prompt := ''a cat'', imageUrl := [], inputMethod := FileUpload\<rparr>)) =
     [\<lparr> url = ''http://gateway/generate-video'', http_method = ''POST'',
        body = JObject
          [(''prompt'', JString ''a cat''), (''inference_steps'', JNumber (Finite 50)),
           (''guidance_scale'', JNumber (Finite (15 / 2))), (''width'', JNumber (Finite 704)),
           (''height'', JNumber (Finite 480)), (''num_frames'', JNumber (Finite 161))],
        headers = [(''Accept'', ''application/json''),
                   (''Content-Type'', ''application/json'')] \<rparr>]"
proof -
  let ?env = "example_platform (Some ''http://gateway'') Pending (Fulfilled response_200)"
  let ?c = "initial\<lparr>prompt := ''a cat'', imageUrl := [], inputMethod := FileUpload\<rparr>"
  have v: "validateDimensions ?c = Inr ()" by (rule validateDimensions_example)
  have a: "add_image ?env ?c (payload_literal ?c) = (Normal (payload_literal ?c), 0)"
    by (simp add: add_image_def initial_def)
  have "fetches (handleSubmit ?env ?c) =
      [fetch_arguments ''http://gateway'' (add_seed ?c (payload_literal ?c))]"
    by (rule handleSubmit_sends[OF v _ _ a]) (simp_all add: example_platform_def)
  then show ?thesis
    by (simp add: fetch_arguments_def add_seed_def payload_literal_def initial_def)
qed

lemma validated_numbers_finite:
  assumes "validateDimensions c = Inr ()"
  shows "json_number (width c) = JNumber (width c)"
    and "json_number (height c) = JNumber (height c)"
    and "json_number (numFrames c) = JNumber (numFrames c)"
proof -
  have d: "divisible_by 32 (width c)" "divisible_by 32 (height c)"
    "divisible_by 8 (js_sub (numFrames c) (Finite 1))"
    using assms validateDimensions_fails[of c] by auto
  show "json_number (width c) = JNumber (width c)"
    using d(1) by (cases "width c") (simp_all add: divisible_by_def json_number_def)
  show "json_number (height c) = JNumber (height c)"
    using d(2) by (cases "height c") (simp_all add: divisible_by_def json_number_def)
  show "json_number (numFrames c) = JNumber (numFrames c)"
    using d(3) by (cases "numFrames c") (simp_all add: divisible_by_def json_number_def)
qed

lemma JSON_stringify_number: "JSON_stringify (JNumber n) = json_number n"
  by (cases n) (simp_all add: json_number_def)

lemma written_with_image_url:
  "JSON_stringify (JObject (add_seed c (set_property ''image_url'' (JString u) (payload_literal c)))) =
     JObject ([(''prompt'', JString (prompt c)),
               (''inference_steps'', json_number (inferenceSteps c)),
               (''guidance_scale'', json_number (guidanceScale c)),
               (''width'', json_number (width c)),
               (''height'', json_number (height c)),
               (''num_frames'', json_number (numFrames c)),
               (''image_url'', JString u)]
        @ (case seed c of None \<Rightarrow> [] | Some s \<Rightarrow> [(''seed'', json_number s)]))"
  by (cases "seed c")
     (simp_all add: add_seed_def payload_literal_def JSON_stringify_number del: JSON_stringify.simps(1))

lemma written_with_image_base64:
  "JSON_stringify (JObject (add_seed c (set_property ''image_base64'' (JString d) (payload_literal c)))) =
     JObject ([(''prompt'', JString (prompt c)),
               (''inference_steps'', json_number (inferenceSteps c)),
               (''guidance_scale'', json_number (guidanceScale c)),
               (''width'', json_number (width c)),
               (''height'', json_number (height c)),
               (''num_frames'', json_number (numFrames c)),
               (''image_base64'', JString d)]
        @ (case seed c of None \<Rightarrow> [] | Some s \<Rightarrow> [(''seed'', json_number s)]))"
  by (cases "seed c")
     (simp_all add: add_seed_def payload_literal_def JSON_stringify_number del: JSON_stringify.simps(1))

lemma validateDimensions_of_example_numbers:
  assumes "width c = Finite 704" "height c = Finite 480" "numFrames c = Finite 161"
    "inferenceSteps c = Finite 50" "guidanceScale c = Finite (15 / 2)"
  shows "validateDimensions c = Inr ()"
  using frames_minus_one_exact[of 161] assms
  by (simp add: validateDimensions_def js_strict_neq_def trunc_def)

text \<open>
  Claim C4. With the validation passed and the base URL configured, the submission calls
  \<^verbatim>\<open>fetch\<close> once, with a POST to the URL followed by \<^verbatim>\<open>/generate-video\<close>, and the body
  written from an object with the prompt, the inference steps, the guidance scale, the
  width, the height and the number of frames of the component, in this order and under
  the keys of the literal, then \<^verbatim>\<open>image_url\<close> with the image URL (URL method) or
  \<^verbatim>\<open>image_base64\<close> with what the reader gave for the selected file (file method), then
  \<^verbatim>\<open>seed\<close> with the seed only when the seed is not \<^verbatim>\<open>null\<close>. Each number stands in the body
  as JSON writes it; the width, the height and the number of frames of validated
  parameters are finite and stand as themselves. For every component with width 704,
  height 480, 161 frames, 50 steps, guidance scale 7.5, prompt "a cat", image URL
  "http://x/y.jpg", the URL method and no seed, the validation passes and the body has
  exactly these seven fields, with no seed key.
\<close>

theorem payload_of_submission:
  assumes "validateDimensions c = Inr ()" "VITE_BACKEND_URL env = Some b" "b \<noteq> []"
  shows "(inputMethod c = Url \<longrightarrow>
            fetches (handleSubmit env c) =
              [\<lparr> url = b @ ''/generate-video'', http_method = ''POST'',
                 body = JObject
                   ([(''prompt'', JString (prompt c)),
                     (''inference_steps'', json_number (inferenceSteps c)),
                     (''guidance_scale'', json_number (guidanceScale c)),
                     (''width'', json_number (width c)),
                     (''height'', json_number (height c)),
                     (''num_frames'', json_number (numFrames c)),
                     (''image_url'', JString (imageUrl c))]
                    @ (case seed c of None \<Rightarrow> [] | Some s \<Rightarrow> [(''seed'', json_number s)])),
                 headers = [(''Accept'', ''application/json''),
                            (''Content-Type'', ''application/json'')] \<rparr>])
     \<and> (\<forall>f d. inputMethod c = FileUpload \<and> imageFile c = Some f
            \<and> readAsDataURL env f = Fulfilled d \<longrightarrow>
            fetches (handleSubmit env c) =
              [\<lparr> url = b @ ''/generate-video'', http_method = ''POST'',
                 body = JObject
                   ([(''prompt'', JString (prompt c)),
                     (''inference_steps'', json_number (inferenceSteps c)),
                     (''guidance_scale'', json_number (guidanceScale c)),
                     (''width'', json_number (width c)),
                     (''height'', json_number (height c)),
                     (''num_frames'', json_number (numFrames c)),
                     (''image_base64'', JString d)]
                    @ (case seed c of None \<Rightarrow> [] | Some s \<Rightarrow> [(''seed'', json_number s)])),
                 headers = [(''Accept'', ''application/json''),
                            (''Content-Type'', ''application/json'')] \<rparr>])
     \<and> json_number (width c) = JNumber (width c)
     \<and> json_number (height c) = JNumber (height c)
     \<and> json_number (numFrames c) = JNumber (numFrames c)
     \<and> (\<forall>c'. prompt c' = ''a cat'' \<and> imageUrl c' = ''http://x/y.jpg'' \<and> inputMethod c' = Url
            \<and> seed c' = None \<and> width c' = Finite 704 \<and> height c' = Finite 480
            \<and> numFrames c' = Finite 161 \<and> inferenceSteps c' = Finite 50
            \<and> guidanceScale c' = Finite (15 / 2) \<longrightarrow>
            validateDimensions c' = Inr ()
            \<and> fetches (handleSubmit env c') =
                [\<lparr> url = b @ ''/generate-video'', http_method = ''POST'',
                   body = JObject
                     [(''prompt'', JString ''a cat''),
                      (''inference_steps'', JNumber (Finite 50)),
                      (''guidance_scale'', JNumber (Finite (15 / 2))),
                      (''width'', JNumber (Finite 704)), (''height'', JNumber (Finite 480)),
                      (''num_frames'', JNumber (Finite 161)),
                      (''image_url'', JString ''http://x/y.jpg'')],
                   headers = [(''Accept'', ''application/json''),
                              (''Content-Type'', ''application/json'')] \<rparr>])"
proof -
  have u: "fetches (handleSubmit env c) =
              [\<lparr> url = b @ ''/generate-video'', http_method = ''POST'',
                 body = JObject
                   ([(''prompt'', JString (prompt c)),
                     (''inference_steps'', json_number (inferenceSteps c)),
                     (''guidance_scale'', json_number (guidanceScale c)),
                     (''width'', json_number (width c)),
                     (''height'', json_number (height c)),
                     (''num_frames'', json_number (numFrames c)),
                     (''image_url'', JString (imageUrl c))]
                    @ (case seed c of None \<Rightarrow> [] | Some s \<Rightarrow> [(''seed'', json_number s)])),
                 headers = [(''Accept'', ''application/json''),
                            (''Content-Type'', ''application/json'')] \<rparr>]"
    if m: "inputMethod c = Url" and v: "validateDimensions c = Inr ()" for c
    using handleSubmit_sends[OF v assms(2,3) add_image_Url[OF m]]
    by (simp only: fetch_arguments_def written_with_image_url)
  have f: "fetches (handleSubmit env c) =
              [\<lparr> url = b @ ''/generate-video'', http_method = ''POST'',
                 body = JObject
                   ([(''prompt'', JString (prompt c)),
                     (''inference_steps'', json_number (inferenceSteps c)),
                     (''guidance_scale'', json_number (guidanceScale c)),
                     (''width'', json_number (width c)),
                     (''height'', json_number (height c)),
                     (''num_frames'', json_number (numFrames c)),
                     (''image_base64'', JString d)]
                    @ (case seed c of None \<Rightarrow> [] | Some s \<Rightarrow> [(''seed'', json_number s)])),
                 headers = [(''Accept'', ''application/json''),
                            (''Content-Type'', ''application/json'')] \<rparr>]"
    if "inputMethod c = FileUpload" "imageFile c = Some f" "readAsDataURL env f = Fulfilled d"
    for f d
    using handleSubmit_sends[OF assms add_image_file[OF that]]
    by (simp only: fetch_arguments_def written_with_image_base64)
  have x: "validateDimensions c' = Inr ()
            \<and> fetches (handleSubmit env c') =
                [\<lparr> url = b @ ''/generate-video'', http_method = ''POST'',
                   body = JObject
                     [(''prompt'', JString ''a cat''),
                      (''inference_steps'', JNumber (Finite 50)),
                      (''guidance_scale'', JNumber (Finite (15 / 2))),
                      (''width'', JNumber (Finite 704)), (''height'', JNumber (Finite 480)),
                      (''num_frames'', JNumber (Finite 161)),
                      (''image_url'', JString ''http://x/y.jpg'')],
                   headers = [(''Accept'', ''application/json''),
                              (''Content-Type'', ''application/json'')] \<rparr>]"
    if "prompt c' = ''a cat''" "imageUrl c' = ''http://x/y.jpg''" "inputMethod c' = Url"
      "seed c' = None" "width c' = Finite 704" "height c' = Finite 480"
      "numFrames c' = Finite 161" "inferenceSteps c' = Finite 50"
      "guidanceScale c' = Finite (15 / 2)"
    for c'
  proof -
    have v: "validateDimensions c' = Inr ()"
      by (rule validateDimensions_of_example_numbers[OF that(5-9)])
    show ?thesis using v u[OF that(3) v] that by (simp add: json_number_def)
  qed
  show ?thesis
    using u[OF _ assms(1)] f validated_numbers_finite[OF assms(1)] x by blast
qed

theorem payload_of_submission_witness:
  "fetches (handleSubmit (example_platform (Some ''http://gateway'') Pending (Fulfilled response_200))
      (initial\<lparr>prompt := ''a dog'', imageUrl := ''http://x/z.jpg'', seed := Some NaN,
         inferenceSteps := PosInfinity, guidanceScale := Finite (7 / 2), width := Finite 640,
         height := Finite 352, numFrames := Finite 97\<rparr>)) =
     [\<lparr> url = ''http://gateway/generate-video'', http_method = ''POST'',
        body = JObject
          [(''prompt'', JString ''a dog''), (''inference_steps'', JNull),
           (''guidance_scale'', JNumber (Finite (7 / 2))), (''width'', JNumber (Finite 640)),
           (''height'', JNumber (Finite 352)), (''num_frames'', JNumber (Finite 97)),
           (''image_url'', JString ''http://x/z.jpg''), (''seed'', JNull)],
        headers = [(''Accept'', ''application/json''),
                   (''Content-Type'', ''application/json'')] \<rparr>]
   \<and> fetches (handleSubmit (example_platform (Some ''http://gateway'') Pending (Fulfilled response_200))
      (initial\<lparr>prompt := ''a cat'', imageUrl := ''http://x/y.jpg''\<rparr>)) =
     [\<lparr> url = ''http://gateway/generate-video'', http_method = ''POST'',
        body = JObject
          [(''prompt'', JString ''a cat''), (''inference_steps'', JNumber (Finite 50)),
           (''guidance_scale'', JNumber (Finite (15 / 2))), (''width'', JNumber (Finite 704)),
           (''height'', JNumber (Finite 480)), (''num_frames'', JNumber (Finite 161)),
           (''image_url'', JString ''http://x/y.jpg'')],
        headers = [(''Accept'', ''application/json''),
                   (''Content-Type'', ''application/json'')] \<rparr>]"
proof -
  let ?env = "example_platform (Some ''http://gateway'') Pending (Fulfilled response_200)"
  let ?c = "initial\<lparr>prompt := ''a dog'', imageUrl := ''http://x/z.jpg'', seed := Some NaN,
         inferenceSteps := PosInfinity, guidanceScale := Finite (7 / 2), width := Finite 640,
         height := Finite 352, numFrames := Finite 97\<rparr>"
  let ?d = "initial\<lparr>prompt := ''a cat'', imageUrl := ''http://x/y.jpg''\<rparr>"
  have v: "validateDimensions ?c = Inr ()"
    using frames_minus_one_exact[of 97]
    by (simp add: validateDimensions_def js_strict_neq_def trunc_def)
  have b: "VITE_BACKEND_URL ?env = Some ''http://gateway''" by (simp add: example_platform_def)
  have n: "''http://gateway'' \<noteq> []" by simp
  have m: "inputMethod ?c = Url" by (simp add: initial_def)
  have first: "fetches (handleSubmit ?env ?c) =
     [\<lparr> url = ''http://gateway/generate-video'', http_method = ''POST'',
        body = JObject
          [(''prompt'', JString ''a dog''), (''inference_steps'', JNull),
           (''guidance_scale'', JNumber (Finite (7 / 2))), (''width'', JNumber (Finite 640)),
           (''height'', JNumber (Finite 352)), (''num_frames'', JNumber (Finite 97)),
           (''image_url'', JString ''http://x/z.jpg''), (''seed'', JNull)],
        headers = [(''Accept'', ''application/json''),
                   (''Content-Type'', ''application/json'')] \<rparr>]"
    using payload_of_submission[OF v b n] m
    by (simp add: json_number_def)
  have e: "prompt ?d = ''a cat'' \<and> imageUrl ?d = ''http://x/y.jpg'' \<and> inputMethod ?d = Url
            \<and> seed ?d = None \<and> width ?d = Finite 704 \<and> height ?d = Finite 480
            \<and> numFrames ?d = Finite 161 \<and> inferenceSteps ?d = Finite 50
            \<and> guidanceScale ?d = Finite (15 / 2)"
    by (simp add: initial_def)
  have second: "fetches (handleSubmit ?env ?d) =
     [\<lparr> url = ''http://gateway/generate-video'', http_method = ''POST'',
        body = JObject
          [(''prompt'', JString ''a cat''), (''inference_steps'', JNumber (Finite 50)),
           (''guidance_scale'', JNumber (Finite (15 / 2))), (''width'', JNumber (Finite 704)),
           (''height'', JNumber (Finite 480)), (''num_frames'', JNumber (Finite 161)),
           (''image_url'', JString ''http://x/y.jpg'')],
        headers = [(''Accept'', ''application/json''),
                   (''Content-Type'', ''application/json'')] \<rparr>]"
  proof -
    have "validateDimensions ?d = Inr ()
            \<and> fetches (handleSubmit ?env ?d) =
                [\<lparr> url = ''http://gateway'' @ ''/generate-video'', http_method = ''POST'',
                   body = JObject
                     [(''prompt'', JString ''a cat''),
                      (''inference_steps'', JNumber (Finite 50)),
                      (''guidance_scale'', JNumber (Finite (15 / 2))),
                      (''width'', JNumber (Finite 704)), (''height'', JNumber (Finite 480)),
                      (''num_frames'', JNumber (Finite 161)),
                      (''image_url'', JString ''http://x/y.jpg'')],
                   headers = [(''Accept'', ''application/json''),
                              (''Content-Type'', ''application/json'')] \<rparr>]"
      using payload_of_submission[OF v b n] e by blast
    then show ?thesis by simp
  qed
  show ?thesis using first second by blast
qed

section \<open>What is on display after a submission\<close>

text \<open>
  Claim C8, as amended. After a submission, a new error comes with the result from
  before the submission, and a new result comes with no error: a submission that fails
  leaves what was displayed as the result on display. So when no result was displayed
  before the submission, the error and the result are not both displayed after it.
\<close>

theorem error_and_result_after_submission:
  "(error (after (handleSubmit env c)) = None \<or> result (after (handleSubmit env c)) = result c)
   \<and> (result (after (handleSubmit env c)) \<noteq> result c \<longrightarrow>
        error (after (handleSubmit env c)) = None)
   \<and> (error (after (handleSubmit env c)) \<noteq> None \<longrightarrow>
        displayed_result (after (handleSubmit env c)) = displayed_result c)
   \<and> (displayed_result c = None \<longrightarrow>
        displayed_error (after (handleSubmit env c)) = None
        \<or> displayed_result (after (handleSubmit env c)) = None)"
  by (cases "completion (try_block env c)")
     (simp_all add: handleSubmit_Normal handleSubmit_Throw handleSubmit_Suspended
        displayed_error_def displayed_result_def)

theorem error_and_result_after_submission_witness:
  "displayed_error (after (handleSubmit (example_platform None Pending Pending) initial)) =
     Some ''Backend URL is not configured. Please check your environment variables.''
   \<and> displayed_result (after (handleSubmit (example_platform None Pending Pending) initial)) = None"
proof -
  let ?env = "example_platform None Pending Pending"
  have r: "handleSubmit ?env initial =
     \<lparr> after = initial\<lparr>loading := False, error := Some (caught_message config_error)\<rparr>,
       settled = True, fetches = [], suspensions = [] \<rparr>"
    by (rule handleSubmit_not_configured[OF validateDimensions_initial])
       (simp add: example_platform_def)
  have e: "displayed_error (after (handleSubmit ?env initial)) =
     Some ''Backend URL is not configured. Please check your environment variables.''"
    by (simp add: r displayed_error_def caught_message_def config_error_def)
  have "displayed_result initial = None" by (simp add: displayed_result_def initial_def)
  then have "displayed_error (after (handleSubmit ?env initial)) = None
        \<or> displayed_result (after (handleSubmit ?env initial)) = None"
    using error_and_result_after_submission[of ?env initial] by simp
  then show ?thesis using e by simp
qed

lemma completion_send_Rejected:
  "fetch env (fetch_arguments b p) = Rejected e \<Longrightarrow> completion (send env b p n) = Throw e"
  by (simp add: send_def Let_def await_def)

text \<open>
  Counterexample to claim C8 as stated: a first submission succeeds and stores its result;
  the form is submitted again and the network fails. The second submission settles with
  the message of the failure and the result of the first, both displayed.
\<close>

theorem error_shown_with_earlier_result_counterexample:
  "after (handleSubmit (example_platform (Some ''http://gateway'') Pending (Fulfilled response_200))
      (initial\<lparr>prompt := ''a cat'', imageUrl := ''http://x/y.jpg''\<rparr>)) =
     initial\<lparr>prompt := ''a cat'', imageUrl := ''http://x/y.jpg'', result := JObject []\<rparr>
   \<and> settled (handleSubmit
        (example_platform (Some ''http://gateway'') Pending (Rejected (Error ''Failed to fetch'')))
        (initial\<lparr>prompt := ''a cat'', imageUrl := ''http://x/y.jpg'', result := JObject []\<rparr>))
   \<and> displayed_error (after (handleSubmit
        (example_platform (Some ''http://gateway'') Pending (Rejected (Error ''Failed to fetch'')))
        (initial\<lparr>prompt := ''a cat'', imageUrl := ''http://x/y.jpg'', result := JObject []\<rparr>))) =
       Some ''Failed to fetch''
   \<and> displayed_result (after (handleSubmit
        (example_platform (Some ''http://gateway'') Pending (Rejected (Error ''Failed to fetch'')))
        (initial\<lparr>prompt := ''a cat'', imageUrl := ''http://x/y.jpg'', result := JObject []\<rparr>))) =
       Some (JObject [])"
proof -
  let ?env = "example_platform (Some ''http://gateway'') Pending (Fulfilled response_200)"
  let ?env' = "example_platform (Some ''http://gateway'') Pending (Rejected (Error ''Failed to fetch''))"
  let ?c = "initial\<lparr>prompt := ''a cat'', imageUrl := ''http://x/y.jpg''\<rparr>"
  let ?c' = "initial\<lparr>prompt := ''a cat'', imageUrl := ''http://x/y.jpg'', result := JObject []\<rparr>"
  have n: "''http://gateway'' \<noteq> []" by simp
  have "validateDimensions ?c = validateDimensions initial"
    by (simp add: validateDimensions_def)
  then have v: "validateDimensions ?c = Inr ()" by (simp only: validateDimensions_initial)
  have m: "inputMethod ?c = Url" by (simp add: initial_def)
  have b: "VITE_BACKEND_URL ?env = Some ''http://gateway''" by (simp add: example_platform_def)
  have "fetch ?env (fetch_arguments ''http://gateway'' (add_seed ?c
      (set_property ''image_url'' (JString (imageUrl ?c)) (payload_literal ?c)))) =
      Fulfilled response_200"
    by (simp add: example_platform_def)
  then have "completion (try_block ?env ?c) = receive ?env response_200"
    by (rule try_block_received[OF v b n add_image_Url[OF m]])
  then have "completion (try_block ?env ?c) = Normal (JObject [])"
    by (simp add: receive_def response_200_def await_def)
  then have first: "after (handleSubmit ?env ?c) = ?c'"
    by (simp add: handleSubmit_Normal initial_def)
  have "validateDimensions ?c' = validateDimensions initial"
    by (simp add: validateDimensions_def)
  then have v': "validateDimensions ?c' = Inr ()" by (simp only: validateDimensions_initial)
  have m': "inputMethod ?c' = Url" by (simp add: initial_def)
  have b': "VITE_BACKEND_URL ?env' = Some ''http://gateway''" by (simp add: example_platform_def)
  have "fetch ?env' (fetch_arguments ''http://gateway'' (add_seed ?c'
      (set_property ''image_url'' (JString (imageUrl ?c')) (payload_literal ?c')))) =
      Rejected (Error ''Failed to fetch'')"
    by (simp add: example_platform_def)
  then have "completion (send ?env' ''http://gateway'' (add_seed ?c'
      (set_property ''image_url'' (JString (imageUrl ?c')) (payload_literal ?c'))) 0) =
      Throw (Error ''Failed to fetch'')"
    by (rule completion_send_Rejected)
  then have "completion (try_block ?env' ?c') = Throw (Error ''Failed to fetch'')"
    using try_block_send[OF v' b' n add_image_Url[OF m']] by simp
  then have second: "settled (handleSubmit ?env' ?c')"
    "displayed_error (after (handleSubmit ?env' ?c')) = Some ''Failed to fetch''"
    "displayed_result (after (handleSubmit ?env' ?c')) = Some (JObject [])"
    by (simp_all add: handleSubmit_Throw displayed_error_def displayed_result_def
        caught_message_def)
  show ?thesis using first second by blast
qed

section \<open>The message of a response that is not ok\<close>

lemma errorMessage_not_JSON:
  "JSON_parse env t = None \<Longrightarrow> errorMessage env t = JString t"
  by (simp add: errorMessage_def)

lemma errorMessage_null:
  "JSON_parse env t = Some JNull \<Longrightarrow> errorMessage env t = JString t"
  by (simp add: errorMessage_def)

lemma errorMessage_detail:
  "JSON_parse env t = Some (JObject kvs) \<Longrightarrow> map_of kvs ''detail'' = Some d \<Longrightarrow> truthy d \<Longrightarrow>
     errorMessage env t = d"
  by (simp add: errorMessage_def)

lemma errorMessage_default:
  assumes "JSON_parse env t = Some j" "j \<noteq> JNull"
    and "\<not> (\<exists>kvs d. j = JObject kvs \<and> map_of kvs ''detail'' = Some d \<and> truthy d)"
  shows "errorMessage env t = JString ''Failed to generate video''"
proof (cases j)
  case (JObject kvs)
  then show ?thesis using assms
    by (cases "map_of kvs ''detail''") (auto simp add: errorMessage_def)
qed (use assms in \<open>simp_all add: errorMessage_def\<close>)

lemma add_image_Normal:
  assumes "inputMethod c = Url \<or> imageFile c = None
      \<or> (\<exists>f d. imageFile c = Some f \<and> readAsDataURL env f = Fulfilled d)"
  shows "\<exists>p n. add_image env c q = (Normal p, n)"
proof (cases "inputMethod c")
  case Url
  then show ?thesis by (simp add: add_image_Url)
next
  case FileUpload
  then show ?thesis using assms
    by (cases "imageFile c") (auto simp add: add_image_def await_def)
qed

lemma handleSubmit_failed_response:
  assumes "validateDimensions c = Inr ()" "VITE_BACKEND_URL env = Some b" "b \<noteq> []"
    and "inputMethod c = Url \<or> imageFile c = None
      \<or> (\<exists>f d. imageFile c = Some f \<and> readAsDataURL env f = Fulfilled d)"
    and "\<forall>req. fetch env req = Fulfilled resp"
    and "\<not> response_ok resp" "response_text resp = Fulfilled t"
  shows "error (after (handleSubmit env c)) =
     Some (caught_message (new_Error env (errorMessage env t)))"
proof -
  obtain p n where a: "add_image env c (payload_literal c) = (Normal p, n)"
    using add_image_Normal[OF assms(4)] by blast
  have "fetch env (fetch_arguments b (add_seed c p)) = Fulfilled resp" using assms(5) by blast
  then have "completion (try_block env c) = receive env resp"
    by (rule try_block_received[OF assms(1-3) a])
  also have "\<dots> = Throw (new_Error env (errorMessage env t))"
    using assms(6,7) by (simp add: receive_def await_def)
  finally show ?thesis by (simp add: handleSubmit_Throw)
qed

text \<open>
  Claim C3, as amended. Let the validation pass, the base URL be configured, the image
  step complete, and the gateway answer with a response that is not ok and whose text is
  \<open>t\<close>. The error stored for display is then: the text \<open>t\<close> itself when \<^verbatim>\<open>JSON.parse\<close> fails on
  it, and also when it parses to \<^verbatim>\<open>null\<close>; the \<^verbatim>\<open>detail\<close> of the parsed object when that
  is truthy, converted to a string (a string \<^verbatim>\<open>detail\<close> as it is); and the fixed message
  \<^verbatim>\<open>Failed to generate video\<close> when the text parses to a value other than \<^verbatim>\<open>null\<close> with no
  truthy \<^verbatim>\<open>detail\<close>. The two examples of the claim hold: the body with \<^verbatim>\<open>detail\<close> "oom"
  displays "oom", and the body "server exploded", which is not JSON, displays itself.
\<close>

theorem message_of_failed_response:
  assumes "validateDimensions c = Inr ()" "VITE_BACKEND_URL env = Some b" "b \<noteq> []"
    and "inputMethod c = Url \<or> imageFile c = None
      \<or> (\<exists>f d. imageFile c = Some f \<and> readAsDataURL env f = Fulfilled d)"
    and "\<forall>req. fetch env req = Fulfilled resp"
    and "\<not> response_ok resp" "response_text resp = Fulfilled t"
  shows "settled (handleSubmit env c)
     \<and> (JSON_parse env t = None \<longrightarrow> error (after (handleSubmit env c)) = Some t)
     \<and> (JSON_parse env t = Some JNull \<longrightarrow> error (after (handleSubmit env c)) = Some t)
     \<and> (\<forall>kvs s. JSON_parse env t = Some (JObject kvs) \<and> map_of kvs ''detail'' = Some (JString s)
            \<and> s \<noteq> [] \<longrightarrow> error (after (handleSubmit env c)) = Some s)
     \<and> (\<forall>kvs d. JSON_parse env t = Some (JObject kvs) \<and> map_of kvs ''detail'' = Some d
            \<and> truthy d \<longrightarrow>
            error (after (handleSubmit env c)) =
              Some (case js_ToString (Number_toString env) d of
                      Some m \<Rightarrow> m | None \<Rightarrow> TypeError_message env))
     \<and> (\<forall>j. JSON_parse env t = Some j \<and> j \<noteq> JNull
            \<and> \<not> (\<exists>kvs d. j = JObject kvs \<and> map_of kvs ''detail'' = Some d \<and> truthy d) \<longrightarrow>
            error (after (handleSubmit env c)) = Some ''Failed to generate video'')
     \<and> (t = detail_oom \<and> JSON_parse env t = Some (JObject [(''detail'', JString ''oom'')]) \<longrightarrow>
            displayed_error (after (handleSubmit env c)) = Some ''oom'')
     \<and> (t = ''server exploded'' \<and> JSON_parse env t = None \<longrightarrow>
            displayed_error (after (handleSubmit env c)) = Some ''server exploded'')"
proof -
  note e = handleSubmit_failed_response[OF assms]
  have 1: "error (after (handleSubmit env c)) = Some t" if "JSON_parse env t = None"
    using e errorMessage_not_JSON[OF that] by (simp add: new_Error_def caught_message_def)
  have 2: "error (after (handleSubmit env c)) = Some t" if "JSON_parse env t = Some JNull"
    using e errorMessage_null[OF that] by (simp add: new_Error_def caught_message_def)
  have 4: "error (after (handleSubmit env c)) =
              Some (case js_ToString (Number_toString env) d of
                      Some m \<Rightarrow> m | None \<Rightarrow> TypeError_message env)"
    if "JSON_parse env t = Some (JObject kvs)" "map_of kvs ''detail'' = Some d" "truthy d"
    for kvs d
    using e errorMessage_detail[OF that]
    by (simp add: new_Error_def caught_message_def split: option.split)
  have 3: "error (after (handleSubmit env c)) = Some s"
    if "JSON_parse env t = Some (JObject kvs)" "map_of kvs ''detail'' = Some (JString s)" "s \<noteq> []"
    for kvs s
    using 4[OF that(1,2)] that(3) by simp
  have 5: "error (after (handleSubmit env c)) = Some ''Failed to generate video''"
    if "JSON_parse env t = Some j" "j \<noteq> JNull"
      "\<not> (\<exists>kvs d. j = JObject kvs \<and> map_of kvs ''detail'' = Some d \<and> truthy d)"
    for j
    using e errorMessage_default[OF that] by (simp add: new_Error_def caught_message_def)
  have 6: "displayed_error (after (handleSubmit env c)) = Some ''oom''"
    if "JSON_parse env t = Some (JObject [(''detail'', JString ''oom'')])"
    using 3[OF that, of "''oom''"] by (simp add: displayed_error_def)
  have 7: "displayed_error (after (handleSubmit env c)) = Some ''server exploded''"
    if "t = ''server exploded''" "JSON_parse env t = None"
    using 1[OF that(2)] that(1) by (simp add: displayed_error_def)
  have 0: "settled (handleSubmit env c)"
  proof (rule ccontr)
    assume "\<not> settled (handleSubmit env c)"
    then have "error (after (handleSubmit env c)) = None"
      by (cases "completion (try_block env c)")
         (simp_all add: handleSubmit_Normal handleSubmit_Throw handleSubmit_Suspended)
    with e show False by simp
  qed
  show ?thesis using 0 1 2 3 4 5 6 7 by blast
qed

theorem message_of_failed_response_witness:
  "displayed_error (after (handleSubmit
      (example_platform (Some ''http://gateway'') Pending (Fulfilled (response_500 detail_oom)))
      initial)) = Some ''oom''
   \<and> displayed_error (after (handleSubmit
      (example_platform (Some ''http://gateway'') Pending
         (Fulfilled (response_500 ''server exploded'')))
      initial)) = Some ''server exploded''"
proof -
  let ?env1 = "example_platform (Some ''http://gateway'') Pending (Fulfilled (response_500 detail_oom))"
  let ?env2 = "example_platform (Some ''http://gateway'') Pending
         (Fulfilled (response_500 ''server exploded''))"
  have n: "''http://gateway'' \<noteq> []" by simp
  have m: "inputMethod initial = Url \<or> imageFile initial = None
      \<or> (\<exists>f d. imageFile initial = Some f \<and> readAsDataURL env f = Fulfilled d)" for env
    by (simp add: initial_def)
  have b1: "VITE_BACKEND_URL ?env1 = Some ''http://gateway''" by (simp add: example_platform_def)
  have f1: "\<forall>req. fetch ?env1 req = Fulfilled (response_500 detail_oom)"
    by (simp add: example_platform_def)
  have o1: "\<not> response_ok (response_500 detail_oom)" by (simp add: response_500_def)
  have t1: "response_text (response_500 detail_oom) = Fulfilled detail_oom"
    by (simp add: response_500_def)
  have p1: "JSON_parse ?env1 detail_oom = Some (JObject [(''detail'', JString ''oom'')])"
    by (simp add: example_platform_def example_JSON_parse_def)
  have b2: "VITE_BACKEND_URL ?env2 = Some ''http://gateway''" by (simp add: example_platform_def)
  have f2: "\<forall>req. fetch ?env2 req = Fulfilled (response_500 ''server exploded'')"
    by (simp add: example_platform_def)
  have o2: "\<not> response_ok (response_500 ''server exploded'')" by (simp add: response_500_def)
  have t2: "response_text (response_500 ''server exploded'') = Fulfilled ''server exploded''"
    by (simp add: response_500_def)
  have p2: "JSON_parse ?env2 ''server exploded'' = None"
    by (simp add: example_platform_def example_JSON_parse_def detail_oom_def)
  show ?thesis
    using message_of_failed_response[OF validateDimensions_initial b1 n m f1 o1 t1] p1
      message_of_failed_response[OF validateDimensions_initial b2 n m f2 o2 t2] p2
    by blast
qed

text \<open>
  Counterexample to claim C3 as stated: the body \<^verbatim>\<open>{}\<close> of a response with status 500
  parses as JSON and has no \<^verbatim>\<open>detail\<close> field; the message displayed is the fixed
  \<^verbatim>\<open>Failed to generate video\<close>, which is neither a \<^verbatim>\<open>detail\<close> of the body nor its text.
\<close>

theorem default_message_without_detail_counterexample:
  "JSON_parse (example_platform (Some ''http://gateway'') Pending (Fulfilled (response_500 ''{}'')))
      ''{}'' = Some (JObject [])
   \<and> detail_of (JObject []) = Inr None
   \<and> displayed_error (after (handleSubmit
      (example_platform (Some ''http://gateway'') Pending (Fulfilled (response_500 ''{}'')))
      initial)) = Some ''Failed to generate video''"
proof -
  let ?env = "example_platform (Some ''http://gateway'') Pending (Fulfilled (response_500 ''{}''))"
  have n: "''http://gateway'' \<noteq> []" by simp
  have m: "inputMethod initial = Url \<or> imageFile initial = None
      \<or> (\<exists>f d. imageFile initial = Some f \<and> readAsDataURL ?env f = Fulfilled d)"
    by (simp add: initial_def)
  have b: "VITE_BACKEND_URL ?env = Some ''http://gateway''" by (simp add: example_platform_def)
  have f: "\<forall>req. fetch ?env req = Fulfilled (response_500 ''{}'')"
    by (simp add: example_platform_def)
  have ok: "\<not> response_ok (response_500 ''{}'')" by (simp add: response_500_def)
  have t: "response_text (response_500 ''{}'') = Fulfilled ''{}''"
    by (simp add: response_500_def)
  have p: "JSON_parse ?env ''{}'' = Some (JObject [])"
    by (simp add: example_platform_def example_JSON_parse_def detail_oom_def)
  have "errorMessage ?env ''{}'' = JString ''Failed to generate video''"
    by (rule errorMessage_default[OF p]) simp_all
  then have "error (after (handleSubmit ?env initial)) = Some ''Failed to generate video''"
    using handleSubmit_failed_response[OF validateDimensions_initial b n m f ok t]
    by (simp add: new_Error_def caught_message_def)
  then show ?thesis using p by (simp add: displayed_error_def)
qed

end
